theory Spec2Isabelle
  imports Main "HOL-Library.Char_ord" "HOL-Library.List_Lexorder" "HOL-Library.Product_Lexorder" "HOL-Library.Option_ord"
begin

section \<open>Changesets for exchange calendars: the model of \<^verbatim>\<open>changes.py\<close>\<close>

text \<open>
  The development embeds \<^verbatim>\<open>exchange_calendars_extensions/api/changes.py\<close>.
  Python objects are mutable; here every operation takes the changeset and returns the
  changeset it leaves behind, together with the exception it raised, if any.

  Conventions of the embedding:
  \<^item> a \<^verbatim>\<open>pd.Timestamp\<close> is the number of nanoseconds since the epoch (time-zone naive), an
    \<^typ>\<open>int\<close>; its order and equality are those of the integers;
  \<^item> a Python \<^verbatim>\<open>dict\<close> / \<^verbatim>\<open>OrderedDict\<close> is an association list in iteration order
    with distinct keys; equality of two \<^verbatim>\<open>OrderedDict\<close>s is order sensitive, as equality
    of lists is;
  \<^item> a Python \<^verbatim>\<open>str\<close> is a \<^typ>\<open>string\<close> whose characters are the code points below 256,
    ordered lexicographically by code point;
  \<^item> a Python value (raw input, and whatever a field of type \<^verbatim>\<open>Collection\<close> may hold) is a
    value of the type \<open>pyval\<close>; a collection stored in a field is represented by its
    elements in iteration order;
  \<^item> the library call \<^verbatim>\<open>pd.Timestamp(value)\<close> is the parameter \<open>pd_Timestamp\<close>, which
    returns the timestamp or the exception the library raises; the library call
    \<^verbatim>\<open>datetime.strptime(value, f).time()\<close> on a string is the parameter \<open>strptime\<close>, which
    returns \<open>None\<close> where the library raises \<^verbatim>\<open>ValueError\<close>;
  \<^item> every \<^verbatim>\<open>DateMeta\<close> stored in a changeset is an object of its own (no two dates share
    one metadata object).
\<close>

subsection \<open>Day types, times, timestamps, raw values\<close>

datatype DayType = HOLIDAY | SPECIAL_OPEN | SPECIAL_CLOSE | MONTHLY_EXPIRY | QUARTERLY_EXPIRY

primrec DayType_value :: "DayType \<Rightarrow> string" where
  "DayType_value HOLIDAY = ''holiday''"
| "DayType_value SPECIAL_OPEN = ''special_open''"
| "DayType_value SPECIAL_CLOSE = ''special_close''"
| "DayType_value MONTHLY_EXPIRY = ''monthly_expiry''"
| "DayType_value QUARTERLY_EXPIRY = ''quarterly_expiry''"

datatype time = Time (hour: nat) (minute: nat) (second: nat)

type_synonym Timestamp = int

datatype pyval =
    PyNone
  | PyStr string
  | PyInt int
  | PyDayType DayType
  | PyTime time
  | PyTimestamp Timestamp
  | PyList "pyval list"
  | PyDict "(pyval \<times> pyval) list"

datatype error =
    ValidationError
  | FailedToConvert pyval
  | DayAlreadyInDaysToAdd Timestamp
  | TypeError

text \<open>
  \<open>ValidationError\<close> is pydantic's (a subclass of \<^verbatim>\<open>ValueError\<close>); \<open>FailedToConvert v\<close> is
  \<^verbatim>\<open>ValueError(f'Failed to convert {value} to ...')\<close>; \<open>DayAlreadyInDaysToAdd d\<close> is
  \<^verbatim>\<open>ValueError(f'Day {date} already in days to add.')\<close>; \<open>TypeError\<close> is what
  \<^verbatim>\<open>strptime\<close> raises on a value that is not a string, what \<^verbatim>\<open>set\<close> raises on an
  unhashable element and what \<^verbatim>\<open>sorted\<close> raises on elements that have no order.
\<close>

primrec is_ValueError :: "error \<Rightarrow> bool" where
  "is_ValueError ValidationError = True"
| "is_ValueError (FailedToConvert v) = True"
| "is_ValueError (DayAlreadyInDaysToAdd d) = True"
| "is_ValueError TypeError = False"

subsection \<open>Python dictionaries\<close>

type_synonym ('k, 'v) dict = "('k \<times> 'v) list"

definition keys :: "('k, 'v) dict \<Rightarrow> 'k list" where
  "keys d = map fst d"

definition dict_contains :: "'k \<Rightarrow> ('k, 'v) dict \<Rightarrow> bool" where
  \<comment> \<open>\<^verbatim>\<open>k in d\<close>\<close>
  "dict_contains k d = (k \<in> set (keys d))"

definition dict_get :: "('k, 'v) dict \<Rightarrow> 'k \<Rightarrow> 'v option" where
  \<comment> \<open>\<^verbatim>\<open>d.get(k, None)\<close>\<close>
  "dict_get d k = map_of d k"

primrec dict_setitem :: "'k \<Rightarrow> 'v \<Rightarrow> ('k, 'v) dict \<Rightarrow> ('k, 'v) dict" where
  \<comment> \<open>\<^verbatim>\<open>d[k] = v\<close>: an existing key keeps its place, a new key goes to the end\<close>
  "dict_setitem k v [] = [(k, v)]"
| "dict_setitem k v (p # d) = (if fst p = k then (k, v) # d else p # dict_setitem k v d)"

definition dict_pop :: "'k \<Rightarrow> ('k, 'v) dict \<Rightarrow> ('k, 'v) dict" where
  \<comment> \<open>\<^verbatim>\<open>d.pop(k, None)\<close> and \<^verbatim>\<open>del d[k]\<close>\<close>
  "dict_pop k d = filter (\<lambda>p. fst p \<noteq> k) d"

definition dict_of_items :: "('k \<times> 'v) list \<Rightarrow> ('k, 'v) dict" where
  \<comment> \<open>a dictionary filled item by item\<close>
  "dict_of_items items = foldl (\<lambda>d p. dict_setitem (fst p) (snd p) d) [] items"

subsection \<open>Collecting validation errors\<close>

text \<open>
  pydantic validates every argument, field and item and reports the failures together as
  one \<open>ValidationError\<close>; an exception that is not a \<^verbatim>\<open>ValueError\<close> leaves at once.
\<close>

definition collect :: "error + 'a \<Rightarrow> error + 'b \<Rightarrow> error + ('a \<times> 'b)" where
  "collect r1 r2 =
     (case r1 of
        Inl e \<Rightarrow> (if e = TypeError then Inl TypeError
                  else (case r2 of Inl e' \<Rightarrow> (if e' = TypeError then Inl TypeError else Inl e)
                                 | Inr b \<Rightarrow> Inl e))
      | Inr a \<Rightarrow> (case r2 of Inl e' \<Rightarrow> Inl e' | Inr b \<Rightarrow> Inr (a, b)))"

primrec validate_each :: "('a \<Rightarrow> error + 'b) \<Rightarrow> 'a list \<Rightarrow> error + 'b list" where
  "validate_each f [] = Inr []"
| "validate_each f (x # xs) =
     (case collect (f x) (validate_each f xs) of
        Inl e \<Rightarrow> Inl e
      | Inr (y, ys) \<Rightarrow> Inr (y # ys))"

definition as_ValidationError :: "error + 'a \<Rightarrow> error + 'a" where
  \<comment> \<open>a \<^verbatim>\<open>ValueError\<close> raised inside a validator is reported as a \<open>ValidationError\<close>\<close>
  "as_ValidationError r =
     (case r of Inl e \<Rightarrow> (if is_ValueError e then Inl ValidationError else Inl e)
              | Inr a \<Rightarrow> Inr a)"

definition extra_forbid :: "string list \<Rightarrow> (pyval \<times> pyval) list \<Rightarrow> bool" where
  \<comment> \<open>\<^verbatim>\<open>extra='forbid'\<close>: every key of the input is a declared field\<close>
  "extra_forbid fields kvs =
     list_all (\<lambda>p. case fst p of PyStr s \<Rightarrow> s \<in> set fields | _ \<Rightarrow> False) kvs"

subsection \<open>Timestamps\<close>

definition to_timestamp :: "(pyval \<Rightarrow> error + Timestamp) \<Rightarrow> pyval \<Rightarrow> error + Timestamp" where
  \<comment> \<open>only a \<^verbatim>\<open>ValueError\<close> of \<^verbatim>\<open>pd.Timestamp(value)\<close> is caught and raised again with the
      message of \<^verbatim>\<open>_to_timestamp\<close>; any other exception leaves as it is\<close>
  "to_timestamp pd_Timestamp v =
     (case v of
        PyTimestamp t \<Rightarrow> Inr t
      | _ \<Rightarrow> (case pd_Timestamp v of
                Inr t \<Rightarrow> Inr t
              | Inl e \<Rightarrow> (if is_ValueError e then Inl (FailedToConvert v) else Inl e)))"

definition validate_TimestampLike :: "(pyval \<Rightarrow> error + Timestamp) \<Rightarrow> pyval \<Rightarrow> error + Timestamp" where
  \<comment> \<open>\<^verbatim>\<open>TimestampLike = Annotated[pd.Timestamp, BeforeValidator(_to_timestamp)]\<close>\<close>
  "validate_TimestampLike pd_Timestamp v = as_ValidationError (to_timestamp pd_Timestamp v)"

definition ns_per_day :: int where
  "ns_per_day = 86400 * 1000000000"

definition floor_day :: "Timestamp \<Rightarrow> Timestamp" where
  \<comment> \<open>midnight of the calendar day a point in time falls on: the "calendar-day
      granularity" that the specification speaks of; the source has no such function\<close>
  "floor_day t = t - t mod ns_per_day"

subsection \<open>Day properties\<close>

datatype DayPropsLike =
    DayProps (name: string) (type: DayType)
  | DayPropsWithTime (name: string) (type: DayType) (time: time)

definition to_time :: "(string \<Rightarrow> string \<Rightarrow> time option) \<Rightarrow> pyval \<Rightarrow> error + time" where
  "to_time strptime v =
     (case v of
        PyTime t \<Rightarrow> Inr t
      | PyStr s \<Rightarrow>
          (case strptime s ''%H:%M'' of
             Some t \<Rightarrow> Inr t
           | None \<Rightarrow>
               (case strptime s ''%H:%M:%S'' of
                  Some t \<Rightarrow> Inr t
                | None \<Rightarrow> Inl (FailedToConvert v)))
      | _ \<Rightarrow> Inl TypeError)"

definition DayType_of_pyval :: "pyval \<Rightarrow> DayType option" where
  \<comment> \<open>a member of the enumeration, or the string that is its value\<close>
  "DayType_of_pyval v =
     (case v of
        PyDayType t \<Rightarrow> Some t
      | PyStr s \<Rightarrow> find (\<lambda>t. DayType_value t = s)
                    [HOLIDAY, SPECIAL_OPEN, SPECIAL_CLOSE, MONTHLY_EXPIRY, QUARTERLY_EXPIRY]
      | _ \<Rightarrow> None)"

definition validate_str :: "pyval option \<Rightarrow> error + string" where
  \<comment> \<open>a required field of type \<^verbatim>\<open>str\<close>\<close>
  "validate_str f = (case f of Some (PyStr s) \<Rightarrow> Inr s | _ \<Rightarrow> Inl ValidationError)"

definition validate_DayProps :: "(pyval \<times> pyval) list \<Rightarrow> error + DayPropsLike" where
  \<comment> \<open>class \<^verbatim>\<open>DayProps\<close>: fields \<^verbatim>\<open>name\<close>, \<^verbatim>\<open>type\<close>; no other key\<close>
  "validate_DayProps kvs =
     (case Option.bind (map_of kvs (PyStr ''type'')) DayType_of_pyval of
        None \<Rightarrow> Inl ValidationError
      | Some t \<Rightarrow>
          (case validate_str (map_of kvs (PyStr ''name'')) of
             Inl e \<Rightarrow> Inl e
           | Inr n \<Rightarrow>
               if t \<in> {HOLIDAY, MONTHLY_EXPIRY, QUARTERLY_EXPIRY}
                  \<and> extra_forbid [''name'', ''type''] kvs
               then Inr (DayProps n t) else Inl ValidationError))"

definition validate_DayPropsWithTime ::
  "(string \<Rightarrow> string \<Rightarrow> time option) \<Rightarrow> (pyval \<times> pyval) list \<Rightarrow> error + DayPropsLike" where
  \<comment> \<open>class \<^verbatim>\<open>DayPropsWithTime\<close>: fields \<^verbatim>\<open>name\<close>, \<^verbatim>\<open>type\<close>, \<^verbatim>\<open>time\<close>; no other key\<close>
  "validate_DayPropsWithTime strptime kvs =
     (case Option.bind (map_of kvs (PyStr ''type'')) DayType_of_pyval of
        None \<Rightarrow> Inl ValidationError
      | Some t \<Rightarrow>
          (case collect (validate_str (map_of kvs (PyStr ''name'')))
                  (case map_of kvs (PyStr ''time'') of
                     None \<Rightarrow> Inl ValidationError
                   | Some v \<Rightarrow> as_ValidationError (to_time strptime v)) of
             Inl e \<Rightarrow> Inl e
           | Inr (n, tm) \<Rightarrow>
               if t \<in> {SPECIAL_OPEN, SPECIAL_CLOSE}
                  \<and> extra_forbid [''name'', ''type'', ''time''] kvs
               then Inr (DayPropsWithTime n t tm) else Inl ValidationError))"

definition validate_DayPropsLike ::
  "(string \<Rightarrow> string \<Rightarrow> time option) \<Rightarrow> pyval \<Rightarrow> error + DayPropsLike" where
  \<comment> \<open>\<^verbatim>\<open>Annotated[Union[DayProps, DayPropsWithTime], Field(discriminator='type')]\<close>\<close>
  "validate_DayPropsLike strptime v =
     (case v of
        PyDict kvs \<Rightarrow>
          (case Option.bind (map_of kvs (PyStr ''type'')) DayType_of_pyval of
             None \<Rightarrow> Inl ValidationError
           | Some t \<Rightarrow>
               if t \<in> {HOLIDAY, MONTHLY_EXPIRY, QUARTERLY_EXPIRY}
               then validate_DayProps kvs
               else validate_DayPropsWithTime strptime kvs)
      | _ \<Rightarrow> Inl ValidationError)"

subsection \<open>Python sets and sorting\<close>

text \<open>
  \<^verbatim>\<open>sorted(set(xs))\<close> on a list of arbitrary values: \<^verbatim>\<open>set\<close> needs every element hashable and
  keeps the first of several equal elements; \<^verbatim>\<open>sorted\<close> needs the elements ordered among each
  other, unless there are fewer than two. Strings are ordered among strings (a member of
  \<^verbatim>\<open>DayType\<close> is a string, equal to its value), integers among integers, times among times,
  timestamps among timestamps; \<^verbatim>\<open>None\<close> and values of different kinds have no order.
\<close>

datatype pykey = KNone | KStr string | KInt int | KTime nat nat nat | KTimestamp Timestamp

primrec py_key :: "pyval \<Rightarrow> pykey option" where
  \<comment> \<open>what hashing and equality see of a value; \<open>None\<close> for an unhashable value\<close>
  "py_key PyNone = Some KNone"
| "py_key (PyStr s) = Some (KStr s)"
| "py_key (PyInt i) = Some (KInt i)"
| "py_key (PyDayType t) = Some (KStr (DayType_value t))"
| "py_key (PyTime t) = Some (KTime (hour t) (minute t) (second t))"
| "py_key (PyTimestamp t) = Some (KTimestamp t)"
| "py_key (PyList xs) = None"
| "py_key (PyDict kvs) = None"

fun distinct_first :: "pyval list \<Rightarrow> pyval list" where
  \<comment> \<open>the elements of \<^verbatim>\<open>set(xs)\<close>: of equal elements the first stays\<close>
  "distinct_first [] = []"
| "distinct_first (x # xs) = x # distinct_first (filter (\<lambda>y. py_key y \<noteq> py_key x) xs)"

definition py_set :: "pyval list \<Rightarrow> error + pyval list" where
  \<comment> \<open>\<^verbatim>\<open>set(xs)\<close>\<close>
  "py_set xs = (if list_all (\<lambda>x. py_key x \<noteq> None) xs then Inr (distinct_first xs) else Inl TypeError)"

definition str_key :: "pyval \<Rightarrow> string option" where
  "str_key v = (case py_key v of Some (KStr s) \<Rightarrow> Some s | _ \<Rightarrow> None)"

definition int_key :: "pyval \<Rightarrow> int option" where
  "int_key v = (case py_key v of Some (KInt i) \<Rightarrow> Some i | _ \<Rightarrow> None)"

definition time_key :: "pyval \<Rightarrow> (nat \<times> nat \<times> nat) option" where
  "time_key v = (case py_key v of Some (KTime h m s) \<Rightarrow> Some (h, m, s) | _ \<Rightarrow> None)"

definition timestamp_key :: "pyval \<Rightarrow> Timestamp option" where
  "timestamp_key v = (case py_key v of Some (KTimestamp t) \<Rightarrow> Some t | _ \<Rightarrow> None)"

definition sort_by :: "(pyval \<Rightarrow> ('k :: linorder) option) \<Rightarrow> pyval list \<Rightarrow> pyval list option" where
  \<comment> \<open>the list sorted by a key that every element has\<close>
  "sort_by k xs = (if list_all (\<lambda>x. k x \<noteq> None) xs then Some (sort_key k xs) else None)"

definition py_sorted :: "pyval list \<Rightarrow> error + pyval list" where
  \<comment> \<open>\<^verbatim>\<open>sorted(s)\<close> for a set \<open>s\<close>\<close>
  "py_sorted xs =
     (if length xs \<le> 1 then Inr xs
      else (case sort_by str_key xs of Some ys \<Rightarrow> Inr ys | None \<Rightarrow>
           (case sort_by int_key xs of Some ys \<Rightarrow> Inr ys | None \<Rightarrow>
           (case sort_by time_key xs of Some ys \<Rightarrow> Inr ys | None \<Rightarrow>
           (case sort_by timestamp_key xs of Some ys \<Rightarrow> Inr ys | None \<Rightarrow> Inl TypeError)))))"

definition sorted_set :: "pyval list \<Rightarrow> error + pyval list" where
  \<comment> \<open>\<^verbatim>\<open>sorted(set(xs))\<close>\<close>
  "sorted_set xs = (case py_set xs of Inl e \<Rightarrow> Inl e | Inr s \<Rightarrow> py_sorted s)"

subsection \<open>Metadata of a date\<close>

definition isspace :: "char \<Rightarrow> bool" where
  \<comment> \<open>the characters below 256 that \<^verbatim>\<open>str.strip()\<close> removes\<close>
  "isspace c = (c \<in> set [CHR 0x09, CHR 0x0A, CHR 0x0B, CHR 0x0C, CHR 0x0D,
                          CHR 0x1C, CHR 0x1D, CHR 0x1E, CHR 0x1F, CHR 0x20,
                          CHR 0x85, CHR 0xA0])"

definition strip :: "string \<Rightarrow> string" where
  "strip s = rev (dropWhile isspace (rev (dropWhile isspace s)))"

record DateMeta =
  tags :: "pyval list"
  comment :: "string option"

text \<open>
  The field \<open>tags\<close> holds the elements of the collection stored in the object (none for
  \<^verbatim>\<open>None\<close>); once \<^verbatim>\<open>_canonicalize\<close> has run, the collection is a list.
\<close>

definition DateMeta_default :: DateMeta where
  \<comment> \<open>\<^verbatim>\<open>DateMeta()\<close>\<close>
  "DateMeta_default = \<lparr>tags = [], comment = None\<rparr>"

definition or_empty :: "'a list option \<Rightarrow> 'a list" where
  \<comment> \<open>\<^verbatim>\<open>self.tags or []\<close>\<close>
  "or_empty ts = (case ts of None \<Rightarrow> [] | Some xs \<Rightarrow> xs)"

definition strip_or_None :: "string option \<Rightarrow> string option" where
  \<comment> \<open>\<^verbatim>\<open>self.comment.strip() or None\<close> where the comment is not \<^verbatim>\<open>None\<close>\<close>
  "strip_or_None c =
     (case c of None \<Rightarrow> None | Some s \<Rightarrow> (if strip s = [] then None else Some (strip s)))"

definition DateMeta_canonicalize :: "DateMeta \<Rightarrow> error + DateMeta" where
  \<comment> \<open>the validator \<^verbatim>\<open>DateMeta._canonicalize\<close>; where \<^verbatim>\<open>sorted(set(...))\<close> raises, the object
      stays as it is\<close>
  "DateMeta_canonicalize m =
     (case sorted_set (tags m) of
        Inl e \<Rightarrow> Inl e
      | Inr ts \<Rightarrow> Inr \<lparr>tags = ts, comment = strip_or_None (comment m)\<rparr>)"

definition DateMeta_len :: "DateMeta \<Rightarrow> nat" where
  "DateMeta_len m = length (tags m) + (if comment m \<noteq> None then 1 else 0)"

definition elements :: "pyval \<Rightarrow> pyval list option" where
  \<comment> \<open>the elements of a value that is a \<^verbatim>\<open>Collection\<close> (a list, a mapping with its keys, a
      string with its characters); \<open>None\<close> for any other value\<close>
  "elements v =
     (case v of
        PyList xs \<Rightarrow> Some xs
      | PyDict kvs \<Rightarrow> Some (map fst kvs)
      | PyStr s \<Rightarrow> Some (map (\<lambda>c. PyStr [c]) s)
      | PyDayType t \<Rightarrow> Some (map (\<lambda>c. PyStr [c]) (DayType_value t))
      | _ \<Rightarrow> None)"

definition validate_Tags :: "pyval \<Rightarrow> error + pyval list option" where
  \<comment> \<open>\<^verbatim>\<open>Tags = Union[Collection[str], None]\<close> with \<^verbatim>\<open>arbitrary_types_allowed\<close>: the value is
      \<^verbatim>\<open>None\<close> or an instance of \<^verbatim>\<open>Collection\<close>; its elements are not looked at\<close>
  "validate_Tags v =
     (case v of
        PyNone \<Rightarrow> Inr None
      | _ \<Rightarrow> (case elements v of Some xs \<Rightarrow> Inr (Some xs) | None \<Rightarrow> Inl ValidationError))"

definition validate_comment :: "pyval option \<Rightarrow> error + string option" where
  \<comment> \<open>\<^verbatim>\<open>comment: Union[str, None] = None\<close>\<close>
  "validate_comment f =
     (case f of
        None \<Rightarrow> Inr None
      | Some PyNone \<Rightarrow> Inr None
      | Some (PyStr s) \<Rightarrow> Inr (Some s)
      | _ \<Rightarrow> Inl ValidationError)"

definition validate_DateMeta :: "pyval \<Rightarrow> error + DateMeta" where
  \<comment> \<open>class \<^verbatim>\<open>DateMeta\<close> built from a mapping: fields \<^verbatim>\<open>tags\<close> (default \<^verbatim>\<open>[]\<close>) and
      \<^verbatim>\<open>comment\<close> (default \<^verbatim>\<open>None\<close>), no other key, then \<^verbatim>\<open>_canonicalize\<close>\<close>
  "validate_DateMeta v =
     (case v of
        PyDict kvs \<Rightarrow>
          (case collect (case map_of kvs (PyStr ''tags'') of
                           None \<Rightarrow> Inr (Some [])
                         | Some tv \<Rightarrow> validate_Tags tv)
                        (validate_comment (map_of kvs (PyStr ''comment''))) of
             Inl e \<Rightarrow> Inl e
           | Inr (ts, c) \<Rightarrow>
               if extra_forbid [''tags'', ''comment''] kvs
               then DateMeta_canonicalize \<lparr>tags = or_empty ts, comment = c\<rparr>
               else Inl ValidationError)
      | _ \<Rightarrow> Inl ValidationError)"

definition DateMeta_set_tags :: "DateMeta \<Rightarrow> pyval \<Rightarrow> error option \<times> DateMeta" where
  \<comment> \<open>the assignment \<^verbatim>\<open>meta.tags = v\<close> under \<^verbatim>\<open>validate_assignment=True\<close>, with the object it
      leaves: a value that is not of type \<^verbatim>\<open>Tags\<close> is refused and the object untouched;
      otherwise the field is written and \<^verbatim>\<open>_canonicalize\<close> runs on the object, and where that
      raises, the field keeps the value just written\<close>
  "DateMeta_set_tags m v =
     (case validate_Tags v of
        Inl e \<Rightarrow> (Some e, m)
      | Inr ts \<Rightarrow>
          (let m1 = m\<lparr>tags := or_empty ts\<rparr>
           in (case DateMeta_canonicalize m1 of
                 Inr m2 \<Rightarrow> (None, m2)
               | Inl e \<Rightarrow> (Some e, m1))))"

subsection \<open>The changeset\<close>

record ChangeSet =
  add :: "(Timestamp, DayPropsLike) dict"
  remove :: "Timestamp list"
  meta :: "(Timestamp, DateMeta) dict"

definition ChangeSet_canonicalize :: "ChangeSet \<Rightarrow> ChangeSet" where
  \<comment> \<open>\<^verbatim>\<open>ChangeSet._canonicalize\<close>\<close>
  "ChangeSet_canonicalize c =
     \<lparr>add = sort_key fst (add c),
      remove = sorted_list_of_set (set (remove c)),
      meta = sort_key fst (meta c)\<rparr>"

definition model_validate :: "ChangeSet \<Rightarrow> error + ChangeSet" where
  \<comment> \<open>\<^verbatim>\<open>self.model_validate(self, strict=True)\<close>: an instance is taken as it is, and the
      validator \<^verbatim>\<open>_canonicalize\<close> runs on it\<close>
  "model_validate c = Inr (ChangeSet_canonicalize c)"

definition validate_items ::
  "(pyval \<Rightarrow> error + 'k) \<Rightarrow> (pyval \<Rightarrow> error + 'v) \<Rightarrow> pyval option \<Rightarrow> error + ('k, 'v) dict" where
  \<comment> \<open>a field of type \<^verbatim>\<open>Dict[K, V]\<close> with default \<^verbatim>\<open>dict()\<close>\<close>
  "validate_items vk vv f =
     (case f of
        None \<Rightarrow> Inr []
      | Some (PyDict kvs) \<Rightarrow>
          (case validate_each (\<lambda>p. collect (vk (fst p)) (vv (snd p))) kvs of
             Inl e \<Rightarrow> Inl e
           | Inr items \<Rightarrow> Inr (dict_of_items items))
      | _ \<Rightarrow> Inl ValidationError)"

definition validate_list :: "(pyval \<Rightarrow> error + 'a) \<Rightarrow> pyval option \<Rightarrow> error + 'a list" where
  \<comment> \<open>a field of type \<^verbatim>\<open>List[T]\<close> with default \<^verbatim>\<open>list()\<close>\<close>
  "validate_list f v =
     (case v of
        None \<Rightarrow> Inr []
      | Some (PyList xs) \<Rightarrow> validate_each f xs
      | _ \<Rightarrow> Inl ValidationError)"

definition validate_ChangeSet ::
  "(pyval \<Rightarrow> error + Timestamp) \<Rightarrow> (string \<Rightarrow> string \<Rightarrow> time option) \<Rightarrow> pyval \<Rightarrow> error + ChangeSet" where
  \<comment> \<open>\<^verbatim>\<open>ChangeSet.model_validate(d)\<close> / \<^verbatim>\<open>ChangeSet(**d)\<close> for a plain mapping \<open>d\<close>: the three
      fields are validated, no other key is allowed, then \<^verbatim>\<open>_canonicalize\<close> runs\<close>
  "validate_ChangeSet pd_Timestamp strptime v =
     (case v of
        PyDict kvs \<Rightarrow>
          (case collect
                  (validate_items (validate_TimestampLike pd_Timestamp)
                     (validate_DayPropsLike strptime) (map_of kvs (PyStr ''add'')))
                  (collect
                     (validate_list (validate_TimestampLike pd_Timestamp)
                        (map_of kvs (PyStr ''remove'')))
                     (validate_items (validate_TimestampLike pd_Timestamp)
                        validate_DateMeta (map_of kvs (PyStr ''meta'')))) of
             Inl e \<Rightarrow> Inl e
           | Inr (a, r, m) \<Rightarrow>
               if extra_forbid [''add'', ''remove'', ''meta''] kvs
               then Inr (ChangeSet_canonicalize \<lparr>add = a, remove = r, meta = m\<rparr>)
               else Inl ValidationError)
      | _ \<Rightarrow> Inl ValidationError)"

subsection \<open>The operations\<close>

text \<open>
  An operation returns \<open>(None, c')\<close> when it returns \<^verbatim>\<open>self\<close>, now in state \<open>c'\<close>, and
  \<open>(Some e, c')\<close> when it raises \<open>e\<close> and leaves the changeset in state \<open>c'\<close>.
  Each operation is decorated with \<^verbatim>\<open>@validate_call\<close>: the arguments are validated first, and
  the body runs on the validated values.
\<close>

definition add_day_body :: "ChangeSet \<Rightarrow> Timestamp \<Rightarrow> DayPropsLike \<Rightarrow> error option \<times> ChangeSet" where
  "add_day_body c date props =
     (if dict_contains date (add c) then (Some (DayAlreadyInDaysToAdd date), c)
      else
        let prev = dict_get (add c) date;
            c1 = c\<lparr>add := dict_setitem date props (add c)\<rparr>
        in (case model_validate c1 of
              Inr c2 \<Rightarrow> (None, c2)
            | Inl e \<Rightarrow>
                (Some e,
                 (case prev of
                    Some p \<Rightarrow> c1\<lparr>add := dict_setitem date p (add c1)\<rparr>
                  | None \<Rightarrow> c1\<lparr>add := dict_pop date (add c1)\<rparr>))))"

definition add_day ::
  "(pyval \<Rightarrow> error + Timestamp) \<Rightarrow> (string \<Rightarrow> string \<Rightarrow> time option) \<Rightarrow>
   ChangeSet \<Rightarrow> pyval \<Rightarrow> pyval \<Rightarrow> error option \<times> ChangeSet" where
  "add_day pd_Timestamp strptime c date props =
     (case collect (validate_TimestampLike pd_Timestamp date)
             (validate_DayPropsLike strptime props) of
        Inl e \<Rightarrow> (Some e, c)
      | Inr (d, p) \<Rightarrow> add_day_body c d p)"

definition remove_day_body :: "ChangeSet \<Rightarrow> Timestamp \<Rightarrow> error option \<times> ChangeSet" where
  "remove_day_body c date =
     (let c1 = c\<lparr>remove := remove c @ [date]\<rparr>
      in (case model_validate c1 of
            Inr c2 \<Rightarrow> (None, c2)
          | Inl e \<Rightarrow> (Some e, c1\<lparr>remove := remove1 date (remove c1)\<rparr>)))"

definition remove_day ::
  "(pyval \<Rightarrow> error + Timestamp) \<Rightarrow> ChangeSet \<Rightarrow> pyval \<Rightarrow> error option \<times> ChangeSet" where
  "remove_day pd_Timestamp c date =
     (case validate_TimestampLike pd_Timestamp date of
        Inl e \<Rightarrow> (Some e, c)
      | Inr d \<Rightarrow> remove_day_body c d)"

definition meta_get :: "ChangeSet \<Rightarrow> Timestamp \<Rightarrow> DateMeta" where
  \<comment> \<open>\<^verbatim>\<open>self.meta.get(date, DateMeta())\<close>\<close>
  "meta_get c date = (case dict_get (meta c) date of Some m0 \<Rightarrow> m0 | None \<Rightarrow> DateMeta_default)"

definition set_tags_finally :: "ChangeSet \<Rightarrow> Timestamp \<Rightarrow> DateMeta \<Rightarrow> ChangeSet" where
  \<comment> \<open>the \<^verbatim>\<open>finally\<close> block of \<^verbatim>\<open>set_tags\<close>\<close>
  "set_tags_finally c date m =
     (if DateMeta_len m > 0 then c\<lparr>meta := dict_setitem date m (meta c)\<rparr>
      else c\<lparr>meta := dict_pop date (meta c)\<rparr>)"

definition set_tags_body :: "ChangeSet \<Rightarrow> Timestamp \<Rightarrow> pyval \<Rightarrow> error option \<times> ChangeSet" where
  \<comment> \<open>the handler assigns the previous tags and raises the first exception again (or the
      one its own assignment raises); the \<^verbatim>\<open>finally\<close> block runs on every path\<close>
  "set_tags_body c date tgs =
     (let m = meta_get c date;
          tags_prev = tags m
      in (case DateMeta_set_tags m tgs of
            (None, m1) \<Rightarrow> (None, set_tags_finally c date m1)
          | (Some e, m1) \<Rightarrow>
              (case DateMeta_set_tags m1 (PyList tags_prev) of
                 (None, m2) \<Rightarrow> (Some e, set_tags_finally c date m2)
               | (Some e', m2) \<Rightarrow> (Some e', set_tags_finally c date m2))))"

definition set_tags ::
  "(pyval \<Rightarrow> error + Timestamp) \<Rightarrow> ChangeSet \<Rightarrow> pyval \<Rightarrow> pyval \<Rightarrow> error option \<times> ChangeSet" where
  \<comment> \<open>the decorator checks the arguments; the tags reach the body as they were given\<close>
  "set_tags pd_Timestamp c date tgs =
     (case collect (validate_TimestampLike pd_Timestamp date) (validate_Tags tgs) of
        Inl e \<Rightarrow> (Some e, c)
      | Inr (d, ts) \<Rightarrow> set_tags_body c d tgs)"

definition clear_day_body :: "ChangeSet \<Rightarrow> Timestamp \<Rightarrow> bool \<Rightarrow> error option \<times> ChangeSet" where
  "clear_day_body c date include_meta =
     (None,
      \<lparr>add = dict_pop date (add c),
       remove = filter (\<lambda>x. x \<noteq> date) (remove c),
       meta = (if include_meta then dict_pop date (meta c) else meta c)\<rparr>)"

definition clear_day ::
  "(pyval \<Rightarrow> error + Timestamp) \<Rightarrow> ChangeSet \<Rightarrow> pyval \<Rightarrow> bool \<Rightarrow> error option \<times> ChangeSet" where
  "clear_day pd_Timestamp c date include_meta =
     (case validate_TimestampLike pd_Timestamp date of
        Inl e \<Rightarrow> (Some e, c)
      | Inr d \<Rightarrow> clear_day_body c d include_meta)"

definition clear :: "ChangeSet \<Rightarrow> bool \<Rightarrow> ChangeSet" where
  "clear c include_meta =
     \<lparr>add = [], remove = [], meta = (if include_meta then [] else meta c)\<rparr>"

definition ChangeSet_len :: "ChangeSet \<Rightarrow> nat" where
  "ChangeSet_len c = length (add c) + length (remove c) + length (meta c)"

definition ChangeSet_eq :: "ChangeSet \<Rightarrow> ChangeSet \<Rightarrow> bool" where
  "ChangeSet_eq c other = (add c = add other \<and> remove c = remove other \<and> meta c = meta other)"

definition all_days :: "ChangeSet \<Rightarrow> bool \<Rightarrow> Timestamp list" where
  "all_days c include_meta =
     (let dates = set (keys (add c)) \<union> set (remove c);
          dates = (if include_meta then dates \<union> set (keys (meta c)) else dates)
      in sorted_list_of_set dates)"

definition ChangeSet_empty :: ChangeSet where
  \<comment> \<open>\<^verbatim>\<open>ChangeSet()\<close>\<close>
  "ChangeSet_empty = \<lparr>add = [], remove = [], meta = []\<rparr>"

subsection \<open>Canonical form and the class invariants\<close>

definition is_canonical :: "ChangeSet \<Rightarrow> bool" where
  \<comment> \<open>the canonical form: \<open>add\<close> and \<open>meta\<close> iterate in ascending date order, \<open>remove\<close> is
      ascending without duplicates\<close>
  "is_canonical c =
     (sorted (keys (add c)) \<and> sorted (remove c) \<and> distinct (remove c) \<and> sorted (keys (meta c)))"

definition DayPropsLike_valid :: "DayPropsLike \<Rightarrow> bool" where
  \<comment> \<open>the \<^verbatim>\<open>Literal\<close> type of the field \<^verbatim>\<open>type\<close> in each of the two classes\<close>
  "DayPropsLike_valid p =
     (case p of
        DayProps n t \<Rightarrow> t \<in> {HOLIDAY, MONTHLY_EXPIRY, QUARTERLY_EXPIRY}
      | DayPropsWithTime n t tm \<Rightarrow> t \<in> {SPECIAL_OPEN, SPECIAL_CLOSE})"

definition DateMeta_valid :: "DateMeta \<Rightarrow> bool" where
  \<comment> \<open>what \<^verbatim>\<open>DateMeta._canonicalize\<close> establishes on every construction and assignment: the
      tags are a sorted set, the comment is stripped and not empty\<close>
  "DateMeta_valid m =
     (sorted_set (tags m) = Inr (tags m)
      \<and> (case comment m of None \<Rightarrow> True | Some s \<Rightarrow> s \<noteq> [] \<and> strip s = s))"

definition ChangeSet_valid :: "ChangeSet \<Rightarrow> bool" where
  "ChangeSet_valid c =
     (is_canonical c \<and> distinct (keys (add c)) \<and> distinct (keys (meta c))
      \<and> list_all DayPropsLike_valid (map snd (add c))
      \<and> list_all DateMeta_valid (map snd (meta c)))"

subsection \<open>Serialisation\<close>

text \<open>
  Modelled from the spec: the serialiser is not part of \<^verbatim>\<open>changes.py\<close> (the classes inherit
  it from their base class). The specification describes its output as "the same
  nested-mapping shape" as the input of the constructor, "producible by serializing
  \<open>add\<close>/\<open>remove\<close>/\<open>meta\<close> in their canonical form": top-level keys \<^verbatim>\<open>add\<close>, \<^verbatim>\<open>remove\<close>,
  \<^verbatim>\<open>meta\<close>, every collection in its stored order, every record with its declared fields.
\<close>

definition DayPropsLike_dump :: "DayPropsLike \<Rightarrow> pyval" where
  \<comment> \<open>Modelled from the spec: the mapping \<open>{name, type}\<close> or \<open>{name, type, time}\<close>.\<close>
  "DayPropsLike_dump p =
     (case p of
        DayProps n t \<Rightarrow> PyDict [(PyStr ''name'', PyStr n), (PyStr ''type'', PyDayType t)]
      | DayPropsWithTime n t tm \<Rightarrow>
          PyDict [(PyStr ''name'', PyStr n), (PyStr ''type'', PyDayType t),
                  (PyStr ''time'', PyTime tm)])"

definition DateMeta_dump :: "DateMeta \<Rightarrow> pyval" where
  \<comment> \<open>Modelled from the spec: the mapping \<open>{tags, comment}\<close>.\<close>
  "DateMeta_dump m =
     PyDict [(PyStr ''tags'', PyList (tags m)),
             (PyStr ''comment'', (case comment m of None \<Rightarrow> PyNone | Some s \<Rightarrow> PyStr s))]"

definition model_dump :: "ChangeSet \<Rightarrow> pyval" where
  \<comment> \<open>Modelled from the spec: the nested mapping with the three top-level collections.\<close>
  "model_dump c =
     PyDict [(PyStr ''add'',
                PyDict (map (\<lambda>p. (PyTimestamp (fst p), DayPropsLike_dump (snd p))) (add c))),
             (PyStr ''remove'', PyList (map PyTimestamp (remove c))),
             (PyStr ''meta'',
                PyDict (map (\<lambda>p. (PyTimestamp (fst p), DateMeta_dump (snd p))) (meta c)))]"

definition stored_comment :: "ChangeSet \<Rightarrow> Timestamp \<Rightarrow> string option" where
  \<comment> \<open>the comment set for a date, if any\<close>
  "stored_comment c d = (case dict_get (meta c) d of Some m \<Rightarrow> comment m | None \<Rightarrow> None)"


section \<open>Properties\<close>

subsection \<open>Dictionaries\<close>

lemma keys_dict_setitem:
  "keys (dict_setitem k v d) = (if k \<in> set (keys d) then keys d else keys d @ [k])"
  by (induction d) (auto simp: keys_def)

lemma dict_get_setitem:
  "dict_get (dict_setitem k v d) k' = (if k' = k then Some v else dict_get d k')"
  by (induction d) (auto simp: dict_get_def)

lemma dict_get_pop:
  "dict_get (dict_pop k d) k' = (if k' = k then None else dict_get d k')"
  by (induction d) (auto simp: dict_get_def dict_pop_def)

lemma dict_setitem_same: "dict_get d k = Some v \<Longrightarrow> dict_setitem k v d = d"
  by (induction d) (auto simp: dict_get_def split: if_splits)

lemma dict_get_None_iff: "dict_get d k = None \<longleftrightarrow> k \<notin> set (keys d)"
  by (simp add: dict_get_def keys_def map_of_eq_None_iff)

lemma dict_pop_absent: "k \<notin> set (keys d) \<Longrightarrow> dict_pop k d = d"
  by (induction d) (auto simp: dict_pop_def keys_def)

lemma set_dict_setitem: "set (dict_setitem k v d) \<subseteq> insert (k, v) (set d)"
  by (induction d) auto

lemma set_dict_pop: "set (dict_pop k d) \<subseteq> set d"
  by (auto simp: dict_pop_def)

lemma distinct_keys_sort_key: "distinct (keys (sort_key fst d)) = distinct (keys d)"
  by (induction d) (simp_all add: keys_def distinct_insort_key)

lemma sorted_keys_sort_key: "sorted (keys (sort_key fst d))"
  by (simp add: keys_def)

lemma sort_key_sorted_keys: "sorted (keys d) \<Longrightarrow> sort_key fst d = d"
  by (simp add: keys_def sort_key_id_if_sorted)

lemma map_of_filter:
  "map_of d k = (case filter (\<lambda>p. fst p = k) d of [] \<Rightarrow> None | p # ps \<Rightarrow> Some (snd p))"
  by (induction d) auto

lemma dict_get_sort_key: "dict_get (sort_key fst d) k = dict_get d k"
  by (simp add: dict_get_def map_of_filter sort_key_stable)

lemma set_keys_sort_key: "set (keys (sort_key fst d)) = set (keys d)"
  by (simp add: keys_def)

subsection \<open>The canonicalisation pass\<close>

lemma is_canonical_canonicalize: "is_canonical (ChangeSet_canonicalize c)"
  by (simp add: is_canonical_def ChangeSet_canonicalize_def sorted_keys_sort_key)

lemma canonicalize_canonical: "is_canonical c \<Longrightarrow> ChangeSet_canonicalize c = c"
  by (simp add: is_canonical_def ChangeSet_canonicalize_def sort_key_sorted_keys
      sorted_list_of_set.idem_if_sorted_distinct)

lemma set_remove_canonicalize [simp]: "set (remove (ChangeSet_canonicalize c)) = set (remove c)"
  by (simp add: ChangeSet_canonicalize_def)

lemma distinct_remove_canonicalize [simp]: "distinct (remove (ChangeSet_canonicalize c))"
  by (simp add: ChangeSet_canonicalize_def)

lemma remove_canonicalize_cong:
  "set (remove c) = set (remove c') \<Longrightarrow>
   remove (ChangeSet_canonicalize c) = remove (ChangeSet_canonicalize c')"
  by (simp add: ChangeSet_canonicalize_def)

lemma length_remove_canonicalize:
  "length (remove (ChangeSet_canonicalize c)) = card (set (remove c))"
  by (simp add: ChangeSet_canonicalize_def)

text \<open>
  The two mutators that re-validate the object, and the constructor, leave the changeset
  in canonical form.
\<close>

lemma add_day_body_canonical: "add_day_body c d p = (None, c') \<Longrightarrow> is_canonical c'"
  by (auto simp: add_day_body_def model_validate_def Let_def is_canonical_canonicalize
      split: if_splits)

lemma remove_day_body_eq:
  "remove_day_body c d = (None, ChangeSet_canonicalize (c\<lparr>remove := remove c @ [d]\<rparr>))"
  by (simp add: remove_day_body_def model_validate_def)

lemma remove_day_body_canonical: "remove_day_body c d = (None, c') \<Longrightarrow> is_canonical c'"
  by (auto simp: remove_day_body_eq is_canonical_canonicalize)

lemma validate_ChangeSet_canonical:
  "validate_ChangeSet pd_Timestamp strptime v = Inr c \<Longrightarrow> is_canonical c"
  by (auto simp: validate_ChangeSet_def is_canonical_canonicalize
      split: pyval.splits sum.splits if_splits)

text \<open>
  Claim C1. After every successful mutation (\<^verbatim>\<open>add_day\<close>, \<^verbatim>\<open>remove_day\<close>, \<^verbatim>\<open>set_tags\<close>) and at
  construction from raw input the changeset is in canonical form. The code does this for
  \<^verbatim>\<open>add_day\<close>, \<^verbatim>\<open>remove_day\<close> and the constructor (the three lemmas above), but \<^verbatim>\<open>set_tags\<close> never
  runs the canonicalisation pass: tagging 2020-01-02 and then 2020-01-01 on a fresh changeset
  succeeds twice and leaves \<open>meta\<close> iterating 2020-01-02 before 2020-01-01.
\<close>

theorem set_tags_out_of_order:
  "set_tags (\<lambda>v. Inl ValidationError)
     (snd (set_tags (\<lambda>v. Inl ValidationError) ChangeSet_empty (PyTimestamp 1577923200000000000)
             (PyList [PyStr ''foo''])))
     (PyTimestamp 1577836800000000000) (PyList [PyStr ''foo''])
   = (None, \<lparr>add = [], remove = [],
              meta = [(1577923200000000000, \<lparr>tags = [PyStr ''foo''], comment = None\<rparr>),
                      (1577836800000000000, \<lparr>tags = [PyStr ''foo''], comment = None\<rparr>)]\<rparr>)
   \<and> \<not> is_canonical (snd (set_tags (\<lambda>v. Inl ValidationError)
     (snd (set_tags (\<lambda>v. Inl ValidationError) ChangeSet_empty (PyTimestamp 1577923200000000000)
             (PyList [PyStr ''foo''])))
     (PyTimestamp 1577836800000000000) (PyList [PyStr ''foo''])))"
  by code_simp

subsection \<open>Adding a day twice\<close>

text \<open>
  Claim C2. For a changeset \<open>c\<close> and a date \<open>d\<close> that is already a key of \<open>add\<close>, \<^verbatim>\<open>add_day\<close>
  with any (valid) properties raises the \<^verbatim>\<open>ValueError\<close> "Day ... already in days to add" and
  leaves \<open>add\<close>, indeed the whole changeset, as it was.
\<close>

theorem add_day_duplicate:
  assumes "validate_TimestampLike pd_Timestamp date = Inr d"
    and "validate_DayPropsLike strptime props = Inr p2"
    and "dict_contains d (add c)"
  shows "add_day pd_Timestamp strptime c date props = (Some (DayAlreadyInDaysToAdd d), c)
         \<and> is_ValueError (DayAlreadyInDaysToAdd d)
         \<and> add (snd (add_day pd_Timestamp strptime c date props)) = add c"
  using assms by (simp add: add_day_def add_day_body_def collect_def)

theorem add_day_duplicate_witness:
  "validate_TimestampLike (\<lambda>v. Inl ValidationError) (PyTimestamp 1577836800000000000) = Inr 1577836800000000000
   \<and> validate_DayPropsLike (\<lambda>s f. None)
        (PyDict [(PyStr ''type'', PyStr ''special_open''), (PyStr ''name'', PyStr ''Special Open''),
                 (PyStr ''time'', PyTime (Time 10 0 0))])
      = Inr (DayPropsWithTime ''Special Open'' SPECIAL_OPEN (Time 10 0 0))
   \<and> dict_contains 1577836800000000000
        (add \<lparr>add = [(1577836800000000000, DayProps ''Holiday'' HOLIDAY)], remove = [], meta = []\<rparr>)
   \<and> add_day (\<lambda>v. Inl ValidationError) (\<lambda>s f. None)
        \<lparr>add = [(1577836800000000000, DayProps ''Holiday'' HOLIDAY)], remove = [], meta = []\<rparr>
        (PyTimestamp 1577836800000000000)
        (PyDict [(PyStr ''type'', PyStr ''special_open''), (PyStr ''name'', PyStr ''Special Open''),
                 (PyStr ''time'', PyTime (Time 10 0 0))])
      = (Some (DayAlreadyInDaysToAdd 1577836800000000000),
         \<lparr>add = [(1577836800000000000, DayProps ''Holiday'' HOLIDAY)], remove = [], meta = []\<rparr>)"
proof -
  have h1: "validate_TimestampLike (\<lambda>v. Inl ValidationError) (PyTimestamp 1577836800000000000)
            = Inr 1577836800000000000"
    by (simp add: validate_TimestampLike_def to_timestamp_def as_ValidationError_def)
  have h2: "validate_DayPropsLike (\<lambda>s f. None)
        (PyDict [(PyStr ''type'', PyStr ''special_open''), (PyStr ''name'', PyStr ''Special Open''),
                 (PyStr ''time'', PyTime (Time 10 0 0))])
      = Inr (DayPropsWithTime ''Special Open'' SPECIAL_OPEN (Time 10 0 0))"
    by code_simp
  have h3: "dict_contains 1577836800000000000
        (add \<lparr>add = [(1577836800000000000, DayProps ''Holiday'' HOLIDAY)], remove = [], meta = []\<rparr>)"
    by (simp add: dict_contains_def keys_def)
  from add_day_duplicate [OF h1 h2 h3] h1 h2 h3 show ?thesis
    by simp
qed

subsection \<open>Removing a day twice\<close>

lemma count_list_distinct: "distinct xs \<Longrightarrow> x \<in> set xs \<Longrightarrow> count_list xs x = 1"
  by (induction xs) auto

lemma remove_day_body_again:
  "remove_day_body (snd (remove_day_body c d)) d = remove_day_body c d"
proof -
  let ?c1 = "ChangeSet_canonicalize (c\<lparr>remove := remove c @ [d]\<rparr>)"
  have a: "add (ChangeSet_canonicalize (?c1\<lparr>remove := remove ?c1 @ [d]\<rparr>)) = add ?c1"
    by (simp add: ChangeSet_canonicalize_def sort_key_id_if_sorted)
  have m: "meta (ChangeSet_canonicalize (?c1\<lparr>remove := remove ?c1 @ [d]\<rparr>)) = meta ?c1"
    by (simp add: ChangeSet_canonicalize_def sort_key_id_if_sorted)
  have "set (remove (?c1\<lparr>remove := remove ?c1 @ [d]\<rparr>))
        = set (remove (c\<lparr>remove := remove c @ [d]\<rparr>))"
    by auto
  then have r: "remove (ChangeSet_canonicalize (?c1\<lparr>remove := remove ?c1 @ [d]\<rparr>)) = remove ?c1"
    by (rule remove_canonicalize_cong)
  have "ChangeSet_canonicalize (?c1\<lparr>remove := remove ?c1 @ [d]\<rparr>) = ?c1"
    using a r m by (rule_tac ChangeSet.equality) simp_all
  then show ?thesis
    by (simp add: remove_day_body_eq)
qed

text \<open>
  Claim C3. \<^verbatim>\<open>remove_day\<close> is idempotent up to canonical form: calling \<^verbatim>\<open>remove_day(d)\<close> twice
  succeeds both times, the second call changes nothing, and \<open>remove\<close> then holds \<open>d\<close> exactly
  once, so that \<open>d\<close> counts once in the length of the changeset.
\<close>

theorem remove_day_twice:
  assumes "validate_TimestampLike pd_Timestamp date = Inr d"
  shows "fst (remove_day pd_Timestamp c date) = None
       \<and> remove_day pd_Timestamp (snd (remove_day pd_Timestamp c date)) date
           = (None, snd (remove_day pd_Timestamp c date))
       \<and> count_list (remove (snd (remove_day pd_Timestamp c date))) d = 1
       \<and> ChangeSet_len (snd (remove_day pd_Timestamp c date))
           = length (add c) + card (insert d (set (remove c))) + length (meta c)"
proof -
  have eq: "remove_day pd_Timestamp c' date = remove_day_body c' d" for c'
    using assms by (simp add: remove_day_def)
  have 1: "fst (remove_day_body c d) = None"
    by (simp add: remove_day_body_eq)
  have 2: "remove_day_body (snd (remove_day_body c d)) d = (None, snd (remove_day_body c d))"
    by (simp add: remove_day_body_again) (simp add: remove_day_body_eq)
  have "distinct (remove (snd (remove_day_body c d)))"
    by (simp add: remove_day_body_eq)
  moreover have "d \<in> set (remove (snd (remove_day_body c d)))"
    by (simp add: remove_day_body_eq)
  ultimately have 3: "count_list (remove (snd (remove_day_body c d))) d = 1"
    by (rule count_list_distinct)
  have 4: "ChangeSet_len (snd (remove_day_body c d))
           = length (add c) + card (insert d (set (remove c))) + length (meta c)"
    by (simp add: remove_day_body_eq ChangeSet_len_def length_remove_canonicalize)
       (simp add: ChangeSet_canonicalize_def)
  show ?thesis
    unfolding eq using 1 2 3 4 by simp
qed

theorem remove_day_twice_witness:
  "validate_TimestampLike (\<lambda>v. Inl ValidationError) (PyTimestamp 1577836800000000000) = Inr 1577836800000000000
   \<and> remove_day (\<lambda>v. Inl ValidationError)
        (snd (remove_day (\<lambda>v. Inl ValidationError) ChangeSet_empty (PyTimestamp 1577836800000000000)))
        (PyTimestamp 1577836800000000000)
      = (None, \<lparr>add = [], remove = [1577836800000000000], meta = []\<rparr>)
   \<and> ChangeSet_len
        (snd (remove_day (\<lambda>v. Inl ValidationError) ChangeSet_empty (PyTimestamp 1577836800000000000))) = 1"
proof -
  have h: "validate_TimestampLike (\<lambda>v. Inl ValidationError) (PyTimestamp 1577836800000000000)
           = Inr 1577836800000000000"
    by (simp add: validate_TimestampLike_def to_timestamp_def as_ValidationError_def)
  have v: "snd (remove_day (\<lambda>v. Inl ValidationError) ChangeSet_empty (PyTimestamp 1577836800000000000))
           = \<lparr>add = [], remove = [1577836800000000000], meta = []\<rparr>"
    by code_simp
  from remove_day_twice [OF h, of ChangeSet_empty] h v show ?thesis
    by (simp add: ChangeSet_empty_def)
qed

subsection \<open>All days of a changeset\<close>

text \<open>
  Claim C8. \<^verbatim>\<open>all_days(include_meta=False)\<close> is the sorted, duplicate-free union of the keys
  of \<open>add\<close> and the elements of \<open>remove\<close>, returned as a sequence of its own;
  \<^verbatim>\<open>all_days(include_meta=True)\<close> also includes the keys of \<open>meta\<close>.
\<close>

theorem all_days_sorted_union:
  "sorted (all_days c include_meta) \<and> distinct (all_days c include_meta)
   \<and> set (all_days c False) = set (keys (add c)) \<union> set (remove c)
   \<and> set (all_days c True) = set (keys (add c)) \<union> set (remove c) \<union> set (keys (meta c))"
  by (simp add: all_days_def Let_def)

theorem all_days_sorted_union_witness:
  "all_days \<lparr>add = [(1577836800000000000, DayProps ''Holiday'' HOLIDAY)],
             remove = [1577923200000000000],
             meta = [(1578009600000000000, \<lparr>tags = [PyStr ''foo''], comment = None\<rparr>)]\<rparr> False
     = [1577836800000000000, 1577923200000000000]
   \<and> all_days \<lparr>add = [(1577836800000000000, DayProps ''Holiday'' HOLIDAY)],
             remove = [1577923200000000000],
             meta = [(1578009600000000000, \<lparr>tags = [PyStr ''foo''], comment = None\<rparr>)]\<rparr> True
     = [1577836800000000000, 1577923200000000000, 1578009600000000000]
   \<and> sorted (all_days \<lparr>add = [(1577836800000000000, DayProps ''Holiday'' HOLIDAY)],
             remove = [1577923200000000000],
             meta = [(1578009600000000000, \<lparr>tags = [PyStr ''foo''], comment = None\<rparr>)]\<rparr> True)"
proof -
  let ?c = "\<lparr>add = [(1577836800000000000, DayProps ''Holiday'' HOLIDAY)],
             remove = [1577923200000000000],
             meta = [(1578009600000000000, \<lparr>tags = [PyStr ''foo''], comment = None\<rparr>)]\<rparr>"
  have 1: "all_days ?c False = [1577836800000000000, 1577923200000000000]"
    by code_simp
  have 2: "all_days ?c True = [1577836800000000000, 1577923200000000000, 1578009600000000000]"
    by code_simp
  from all_days_sorted_union [of ?c True] have "sorted (all_days ?c True)"
    by blast
  with 1 2 show ?thesis by blast
qed


subsection \<open>Assigning tags\<close>

lemma validate_TimestampLike_PyTimestamp [simp]:
  "validate_TimestampLike pd_Timestamp (PyTimestamp t) = Inr t"
  by (simp add: validate_TimestampLike_def to_timestamp_def as_ValidationError_def)

lemma add_day_body_new:
  assumes "\<not> dict_contains d (add c)"
  shows "add_day_body c d p = (None, ChangeSet_canonicalize (c\<lparr>add := dict_setitem d p (add c)\<rparr>))"
  using assms by (simp add: add_day_body_def model_validate_def Let_def)

lemma validate_Tags_PyList [simp]: "validate_Tags (PyList xs) = Inr (Some xs)"
  by (simp add: validate_Tags_def elements_def)

lemma validate_Tags_PyNone [simp]: "validate_Tags PyNone = Inr None"
  by (simp add: validate_Tags_def)

lemma DateMeta_set_tags_ok:
  assumes "validate_Tags tgs = Inr ts" and "sorted_set (or_empty ts) = Inr ys"
  shows "DateMeta_set_tags m tgs = (None, \<lparr>tags = ys, comment = strip_or_None (comment m)\<rparr>)"
  using assms by (simp add: DateMeta_set_tags_def DateMeta_canonicalize_def Let_def)

lemma DateMeta_set_tags_fails:
  assumes "validate_Tags tgs = Inr ts" and "sorted_set (or_empty ts) = Inl e"
  shows "DateMeta_set_tags m tgs = (Some e, m\<lparr>tags := or_empty ts\<rparr>)"
  using assms by (simp add: DateMeta_set_tags_def DateMeta_canonicalize_def Let_def)

lemma DateMeta_set_tags_refused:
  assumes "validate_Tags tgs = Inl e"
  shows "DateMeta_set_tags m tgs = (Some e, m)"
  using assms by (simp add: DateMeta_set_tags_def)

lemma set_tags_body_ok:
  assumes "validate_Tags tgs = Inr ts" and "sorted_set (or_empty ts) = Inr ys"
  shows "set_tags_body c d tgs =
           (None, set_tags_finally c d \<lparr>tags = ys, comment = strip_or_None (comment (meta_get c d))\<rparr>)"
  using DateMeta_set_tags_ok [OF assms] by (simp add: set_tags_body_def Let_def)

lemma set_tags_decorated:
  assumes "validate_TimestampLike pd_Timestamp date = Inr d" and "validate_Tags tgs = Inr ts"
  shows "set_tags pd_Timestamp c date tgs = set_tags_body c d tgs"
  using assms by (simp add: set_tags_def collect_def)

lemma dict_get_set_tags_finally:
  "dict_get (meta (set_tags_finally c d m)) d' =
     (if d' = d then (if DateMeta_len m > 0 then Some m else None) else dict_get (meta c) d')"
  by (simp add: set_tags_finally_def dict_get_setitem dict_get_pop)

lemma keys_set_tags_finally:
  "0 < DateMeta_len m \<Longrightarrow> set (keys (meta (set_tags_finally c d m))) = insert d (set (keys (meta c)))"
  by (auto simp: set_tags_finally_def keys_dict_setitem)


subsection \<open>Dates as keys\<close>

text \<open>
  Claim C9 says that every date-like input is normalised to calendar-day granularity before
  it is used as a key of \<open>add\<close>, \<open>remove\<close> or \<open>meta\<close>. The code converts the input to a
  timestamp and uses it as it is: 10:00 on 2020-01-01 and 2020-01-01 itself are two
  different keys, and \<^verbatim>\<open>remove_day\<close>, \<^verbatim>\<open>add_day\<close> and \<^verbatim>\<open>set_tags\<close> of both leave two entries each.
\<close>

theorem point_in_time_is_another_key:
  "validate_TimestampLike (\<lambda>v. Inl ValidationError) (PyTimestamp 1577872800000000000)
     \<noteq> validate_TimestampLike (\<lambda>v. Inl ValidationError)
         (PyTimestamp (floor_day 1577872800000000000))
   \<and> floor_day 1577872800000000000 = 1577836800000000000
   \<and> remove (snd (remove_day (\<lambda>v. Inl ValidationError)
        (snd (remove_day (\<lambda>v. Inl ValidationError) ChangeSet_empty
                (PyTimestamp 1577836800000000000)))
        (PyTimestamp 1577872800000000000)))
     = [1577836800000000000, 1577872800000000000]
   \<and> keys (add (snd (add_day (\<lambda>v. Inl ValidationError) (\<lambda>s f. None)
        (snd (add_day (\<lambda>v. Inl ValidationError) (\<lambda>s f. None) ChangeSet_empty
                (PyTimestamp 1577836800000000000)
                (PyDict [(PyStr ''type'', PyStr ''holiday''), (PyStr ''name'', PyStr ''Holiday'')])))
        (PyTimestamp 1577872800000000000)
        (PyDict [(PyStr ''type'', PyStr ''holiday''), (PyStr ''name'', PyStr ''Holiday'')]))))
     = [1577836800000000000, 1577872800000000000]
   \<and> keys (meta (snd (set_tags (\<lambda>v. Inl ValidationError)
        (snd (set_tags (\<lambda>v. Inl ValidationError) ChangeSet_empty
                (PyTimestamp 1577836800000000000) (PyList [PyStr ''foo''])))
        (PyTimestamp 1577872800000000000) (PyList [PyStr ''foo'']))))
     = [1577836800000000000, 1577872800000000000]"
  by code_simp

text \<open>
  Claim C9, amended. A timestamp input is used as a key exactly as given; any other input
  is converted by \<^verbatim>\<open>pd.Timestamp(value)\<close> and nothing else. The timestamp so obtained, not
  truncated to the day, is the date that \<^verbatim>\<open>remove_day\<close> lists, the key under which \<^verbatim>\<open>add_day\<close>
  stores the properties and the key under which \<^verbatim>\<open>set_tags\<close> stores the metadata. So a
  point in time and the date it falls on denote the same key only when the point in time
  is midnight.
\<close>

theorem timestamp_used_as_given:
  "validate_TimestampLike pd_Timestamp (PyTimestamp t) = Inr t
   \<and> ((validate_TimestampLike pd_Timestamp (PyTimestamp t)
        = validate_TimestampLike pd_Timestamp (PyTimestamp (floor_day t)))
       = (t mod ns_per_day = 0))
   \<and> ((\<forall>t'. v \<noteq> PyTimestamp t') \<longrightarrow>
        validate_TimestampLike pd_Timestamp v
          = (case pd_Timestamp v of
               Inr t' \<Rightarrow> Inr t'
             | Inl e \<Rightarrow> (if is_ValueError e then Inl ValidationError else Inl e)))
   \<and> (validate_TimestampLike pd_Timestamp date = Inr d \<longrightarrow>
        fst (remove_day pd_Timestamp c date) = None
        \<and> set (remove (snd (remove_day pd_Timestamp c date))) = insert d (set (remove c))
        \<and> (validate_DayPropsLike strptime props = Inr p \<and> \<not> dict_contains d (add c) \<longrightarrow>
             fst (add_day pd_Timestamp strptime c date props) = None
             \<and> set (keys (add (snd (add_day pd_Timestamp strptime c date props))))
                 = insert d (set (keys (add c)))
             \<and> dict_get (add (snd (add_day pd_Timestamp strptime c date props))) d = Some p)
        \<and> (validate_Tags tgs = Inr ts \<and> sorted_set (or_empty ts) = Inr ys \<and> ys \<noteq> [] \<longrightarrow>
             fst (set_tags pd_Timestamp c date tgs) = None
             \<and> set (keys (meta (snd (set_tags pd_Timestamp c date tgs))))
                 = insert d (set (keys (meta c)))
             \<and> (\<exists>m. dict_get (meta (snd (set_tags pd_Timestamp c date tgs))) d = Some m
                    \<and> tags m = ys)))"
proof -
  have 1: "validate_TimestampLike pd_Timestamp (PyTimestamp t') = Inr t'" for t'
    by simp
  have 2: "(floor_day t = t) = (t mod ns_per_day = 0)"
    by (auto simp: floor_day_def)
  have 3: "(\<forall>t'. v \<noteq> PyTimestamp t') \<longrightarrow>
        validate_TimestampLike pd_Timestamp v
          = (case pd_Timestamp v of
               Inr t' \<Rightarrow> Inr t'
             | Inl e \<Rightarrow> (if is_ValueError e then Inl ValidationError else Inl e))"
    by (cases v; cases "pd_Timestamp v")
       (auto simp: validate_TimestampLike_def to_timestamp_def as_ValidationError_def)
  have 4: "fst (remove_day pd_Timestamp c date) = None
        \<and> set (remove (snd (remove_day pd_Timestamp c date))) = insert d (set (remove c))"
    if "validate_TimestampLike pd_Timestamp date = Inr d"
    using that by (simp add: remove_day_def remove_day_body_eq)
  have 5: "fst (add_day pd_Timestamp strptime c date props) = None
             \<and> set (keys (add (snd (add_day pd_Timestamp strptime c date props))))
                 = insert d (set (keys (add c)))
             \<and> dict_get (add (snd (add_day pd_Timestamp strptime c date props))) d = Some p"
    if "validate_TimestampLike pd_Timestamp date = Inr d"
      and "validate_DayPropsLike strptime props = Inr p" and "\<not> dict_contains d (add c)"
  proof -
    from that have "add_day pd_Timestamp strptime c date props
        = (None, ChangeSet_canonicalize (c\<lparr>add := dict_setitem d p (add c)\<rparr>))"
      by (simp add: add_day_def collect_def add_day_body_new)
    moreover from that(3) have "d \<notin> set (keys (add c))"
      by (simp add: dict_contains_def)
    ultimately show ?thesis
      by (simp add: ChangeSet_canonicalize_def set_keys_sort_key dict_get_sort_key
          keys_dict_setitem dict_get_setitem)
  qed
  have 6: "fst (set_tags pd_Timestamp c date tgs) = None
             \<and> set (keys (meta (snd (set_tags pd_Timestamp c date tgs))))
                 = insert d (set (keys (meta c)))
             \<and> (\<exists>m. dict_get (meta (snd (set_tags pd_Timestamp c date tgs))) d = Some m
                    \<and> tags m = ys)"
    if "validate_TimestampLike pd_Timestamp date = Inr d"
      and "validate_Tags tgs = Inr ts" and "sorted_set (or_empty ts) = Inr ys" and "ys \<noteq> []"
  proof -
    let ?m = "\<lparr>tags = ys, comment = strip_or_None (comment (meta_get c d))\<rparr>"
    from that have eq: "set_tags pd_Timestamp c date tgs = (None, set_tags_finally c d ?m)"
      by (simp add: set_tags_decorated set_tags_body_ok)
    from that(4) have len: "0 < DateMeta_len ?m"
      by (simp add: DateMeta_len_def)
    show ?thesis
      unfolding eq using len by (simp add: keys_set_tags_finally dict_get_set_tags_finally)
  qed
  have c2: "(validate_TimestampLike pd_Timestamp (PyTimestamp t)
        = validate_TimestampLike pd_Timestamp (PyTimestamp (floor_day t)))
       = (t mod ns_per_day = 0)"
    using 2 by (auto simp: 1)
  have c4: "validate_TimestampLike pd_Timestamp date = Inr d \<longrightarrow>
        fst (remove_day pd_Timestamp c date) = None
        \<and> set (remove (snd (remove_day pd_Timestamp c date))) = insert d (set (remove c))
        \<and> (validate_DayPropsLike strptime props = Inr p \<and> \<not> dict_contains d (add c) \<longrightarrow>
             fst (add_day pd_Timestamp strptime c date props) = None
             \<and> set (keys (add (snd (add_day pd_Timestamp strptime c date props))))
                 = insert d (set (keys (add c)))
             \<and> dict_get (add (snd (add_day pd_Timestamp strptime c date props))) d = Some p)
        \<and> (validate_Tags tgs = Inr ts \<and> sorted_set (or_empty ts) = Inr ys \<and> ys \<noteq> [] \<longrightarrow>
             fst (set_tags pd_Timestamp c date tgs) = None
             \<and> set (keys (meta (snd (set_tags pd_Timestamp c date tgs))))
                 = insert d (set (keys (meta c)))
             \<and> (\<exists>m. dict_get (meta (snd (set_tags pd_Timestamp c date tgs))) d = Some m
                    \<and> tags m = ys))"
    using 4 5 6 by blast
  show ?thesis
    by (intro conjI 1 c2 3 c4)
qed

theorem timestamp_used_as_given_witness:
  "validate_TimestampLike
      (\<lambda>v. if v = PyStr ''2020-01-01 10:00'' then Inr 1577872800000000000 else Inl ValidationError)
      (PyStr ''2020-01-01 10:00'') = Inr 1577872800000000000
   \<and> remove_day
      (\<lambda>v. if v = PyStr ''2020-01-01 10:00'' then Inr 1577872800000000000 else Inl ValidationError)
      ChangeSet_empty (PyStr ''2020-01-01 10:00'')
     = (None, \<lparr>add = [], remove = [1577872800000000000], meta = []\<rparr>)
   \<and> add_day
      (\<lambda>v. if v = PyStr ''2020-01-01 10:00'' then Inr 1577872800000000000 else Inl ValidationError)
      (\<lambda>s f. None) ChangeSet_empty (PyStr ''2020-01-01 10:00'')
      (PyDict [(PyStr ''type'', PyStr ''holiday''), (PyStr ''name'', PyStr ''Holiday'')])
     = (None, \<lparr>add = [(1577872800000000000, DayProps ''Holiday'' HOLIDAY)],
               remove = [], meta = []\<rparr>)
   \<and> set_tags
      (\<lambda>v. if v = PyStr ''2020-01-01 10:00'' then Inr 1577872800000000000 else Inl ValidationError)
      ChangeSet_empty (PyStr ''2020-01-01 10:00'') (PyList [PyStr ''foo''])
     = (None, \<lparr>add = [], remove = [],
               meta = [(1577872800000000000, \<lparr>tags = [PyStr ''foo''], comment = None\<rparr>)]\<rparr>)"
proof -
  let ?pd = "\<lambda>v. if v = PyStr ''2020-01-01 10:00'' then Inr (1577872800000000000 :: Timestamp)
                  else Inl ValidationError"
  let ?sp = "\<lambda>(s :: string) (f :: string). (None :: time option)"
  let ?date = "PyStr ''2020-01-01 10:00''"
  let ?props = "PyDict [(PyStr ''type'', PyStr ''holiday''), (PyStr ''name'', PyStr ''Holiday'')]"
  let ?tgs = "PyList [PyStr ''foo'']"
  have h1: "\<forall>t'. ?date \<noteq> PyTimestamp t'"
    by simp
  have h2: "validate_TimestampLike ?pd ?date = Inr 1577872800000000000"
    by code_simp
  have h3: "validate_DayPropsLike ?sp ?props = Inr (DayProps ''Holiday'' HOLIDAY)"
    by code_simp
  have h4: "\<not> dict_contains 1577872800000000000 (add ChangeSet_empty)"
    by code_simp
  have h5: "validate_Tags ?tgs = Inr (Some [PyStr ''foo''])"
    by simp
  have h6: "sorted_set (or_empty (Some [PyStr ''foo''])) = Inr [PyStr ''foo'']"
    by code_simp
  have h7: "[PyStr ''foo''] \<noteq> []"
    by simp
  note w = timestamp_used_as_given [where pd_Timestamp = ?pd and date = ?date
      and d = 1577872800000000000 and c = ChangeSet_empty and strptime = ?sp and props = ?props
      and p = "DayProps ''Holiday'' HOLIDAY" and tgs = ?tgs and ts = "Some [PyStr ''foo'']"
      and ys = "[PyStr ''foo'']" and v = ?date and t = 0]
  from w h1 h2 h3 h4 h5 h6 h7
  have ok: "fst (remove_day ?pd ChangeSet_empty ?date) = None"
    "fst (add_day ?pd ?sp ChangeSet_empty ?date ?props) = None"
    "fst (set_tags ?pd ChangeSet_empty ?date ?tgs) = None"
    by blast+
  have v1: "snd (remove_day ?pd ChangeSet_empty ?date)
            = \<lparr>add = [], remove = [1577872800000000000], meta = []\<rparr>"
    by code_simp
  have v2: "snd (add_day ?pd ?sp ChangeSet_empty ?date ?props)
            = \<lparr>add = [(1577872800000000000, DayProps ''Holiday'' HOLIDAY)],
               remove = [], meta = []\<rparr>"
    by code_simp
  have v3: "snd (set_tags ?pd ChangeSet_empty ?date ?tgs)
            = \<lparr>add = [], remove = [],
               meta = [(1577872800000000000, \<lparr>tags = [PyStr ''foo''], comment = None\<rparr>)]\<rparr>"
    by code_simp
  from ok v1 v2 v3 h2 show ?thesis
    by (simp add: prod_eq_iff)
qed

subsection \<open>Tags and comments\<close>

lemma sorted_set_Nil [simp]: "sorted_set [] = Inr []"
  by (simp add: sorted_set_def py_set_def py_sorted_def)

lemma DateMeta_set_tags_comment_ok:
  "DateMeta_set_tags m v = (None, m') \<Longrightarrow> comment m' = strip_or_None (comment m)"
  by (auto simp: DateMeta_set_tags_def DateMeta_canonicalize_def Let_def split: sum.splits)

lemma DateMeta_set_tags_comment_fails:
  "DateMeta_set_tags m v = (Some e, m') \<Longrightarrow> comment m' = comment m"
  by (auto simp: DateMeta_set_tags_def DateMeta_canonicalize_def Let_def split: sum.splits)

lemma set_tags_body_result:
  "\<exists>e m'. set_tags_body c d tgs = (e, set_tags_finally c d m')
     \<and> (comment m' = comment (meta_get c d) \<or> comment m' = strip_or_None (comment (meta_get c d)))"
proof -
  let ?m = "meta_get c d"
  obtain e1 m1 where r1: "DateMeta_set_tags ?m tgs = (e1, m1)"
    by (cases "DateMeta_set_tags ?m tgs")
  show ?thesis
  proof (cases e1)
    case None
    with r1 have "set_tags_body c d tgs = (None, set_tags_finally c d m1)"
      by (simp add: set_tags_body_def Let_def)
    moreover from r1 None have "comment m1 = strip_or_None (comment ?m)"
      by (simp add: DateMeta_set_tags_comment_ok)
    ultimately show ?thesis by blast
  next
    case (Some e)
    with r1 have c1: "comment m1 = comment ?m"
      by (simp add: DateMeta_set_tags_comment_fails)
    obtain e2 m2 where r2: "DateMeta_set_tags m1 (PyList (tags ?m)) = (e2, m2)"
      by (cases "DateMeta_set_tags m1 (PyList (tags ?m))")
    show ?thesis
    proof (cases e2)
      case None
      with r1 r2 Some have "set_tags_body c d tgs = (Some e, set_tags_finally c d m2)"
        by (simp add: set_tags_body_def Let_def)
      moreover from r2 None c1 have "comment m2 = strip_or_None (comment ?m)"
        by (simp add: DateMeta_set_tags_comment_ok)
      ultimately show ?thesis by blast
    next
      case (Some e')
      with r1 r2 \<open>e1 = Some e\<close> have "set_tags_body c d tgs = (Some e', set_tags_finally c d m2)"
        by (simp add: set_tags_body_def Let_def)
      moreover from r2 Some c1 have "comment m2 = comment ?m"
        by (simp add: DateMeta_set_tags_comment_fails)
      ultimately show ?thesis by blast
    qed
  qed
qed

lemma set_tags_result:
  "snd (set_tags pd_Timestamp c date tgs) = c
   \<or> (\<exists>d m'. validate_TimestampLike pd_Timestamp date = Inr d
         \<and> snd (set_tags pd_Timestamp c date tgs) = set_tags_finally c d m'
         \<and> (comment m' = comment (meta_get c d)
            \<or> comment m' = strip_or_None (comment (meta_get c d))))"
proof (cases "collect (validate_TimestampLike pd_Timestamp date) (validate_Tags tgs)")
  case (Inl e)
  then show ?thesis by (simp add: set_tags_def)
next
  case (Inr p)
  obtain d ts where p: "p = (d, ts)" by (cases p)
  from Inr p have eq: "set_tags pd_Timestamp c date tgs = set_tags_body c d tgs"
    by (simp add: set_tags_def)
  from Inr p have "validate_TimestampLike pd_Timestamp date = Inr d"
    by (auto simp: collect_def split: sum.splits if_splits)
  with set_tags_body_result [of c d tgs] eq show ?thesis
    by auto
qed

lemma set_tags_finally_sizes:
  assumes "\<forall>m \<in> snd ` set (meta c). 0 < DateMeta_len m"
  shows "\<forall>m \<in> snd ` set (meta (set_tags_finally c d m')). 0 < DateMeta_len m"
proof (cases "0 < DateMeta_len m'")
  case True
  have "set (dict_setitem d m' (meta c)) \<subseteq> insert (d, m') (set (meta c))"
    by (rule set_dict_setitem)
  with True assms show ?thesis
    by (auto simp: set_tags_finally_def)
next
  case False
  have "set (dict_pop d (meta c)) \<subseteq> set (meta c)"
    by (rule set_dict_pop)
  with False assms show ?thesis
    by (auto simp: set_tags_finally_def)
qed

lemma set_tags_keeps_nonempty:
  assumes "\<forall>m \<in> snd ` set (meta c). 0 < DateMeta_len m"
  shows "\<forall>m \<in> snd ` set (meta (snd (set_tags pd_Timestamp c date tgs))). 0 < DateMeta_len m"
  using set_tags_result [of pd_Timestamp c date tgs] set_tags_finally_sizes [OF assms] assms
  by metis

lemma stored_comment_meta_get: "comment (meta_get c d) = stored_comment c d"
  by (simp add: meta_get_def stored_comment_def DateMeta_default_def split: option.splits)

lemma strip_or_None_valid: "DateMeta_valid m \<Longrightarrow> strip_or_None (comment m) = comment m"
  by (auto simp: DateMeta_valid_def strip_or_None_def split: option.splits)

lemma strip_or_None_meta_get:
  assumes "\<forall>m. dict_get (meta c) d = Some m \<longrightarrow> DateMeta_valid m"
  shows "strip_or_None (comment (meta_get c d)) = comment (meta_get c d)"
proof (cases "dict_get (meta c) d")
  case None
  then show ?thesis
    by (simp add: meta_get_def DateMeta_default_def strip_or_None_def)
next
  case (Some m)
  with assms show ?thesis
    by (simp add: meta_get_def strip_or_None_valid)
qed

lemma stored_comment_set_tags_finally:
  "stored_comment (set_tags_finally c d m) d' =
     (if d' = d then (if 0 < DateMeta_len m then comment m else None) else stored_comment c d')"
  by (simp add: stored_comment_def dict_get_set_tags_finally)


text \<open>
  Claim C10. \<^verbatim>\<open>set_tags\<close> never changes the comment of any date, whatever tags it is given
  and whether it returns or raises, and it leaves the metadata of every other date as it
  is; for a date whose metadata has a comment, \<^verbatim>\<open>set_tags(d, None)\<close> and \<^verbatim>\<open>set_tags(d, [])\<close>
  succeed and leave \<open>d\<close> in \<open>meta\<close> with no tags and the same comment.
\<close>

theorem set_tags_keeps_comment:
  assumes "validate_TimestampLike pd_Timestamp date = Inr d"
    and "\<forall>m. dict_get (meta c) d = Some m \<longrightarrow> DateMeta_valid m"
  shows "(\<forall>d'. stored_comment (snd (set_tags pd_Timestamp c date tgs)) d' = stored_comment c d')
    \<and> (\<forall>d'. d' \<noteq> d \<longrightarrow>
          dict_get (meta (snd (set_tags pd_Timestamp c date tgs))) d' = dict_get (meta c) d')
    \<and> (stored_comment c d \<noteq> None \<and> (tgs = PyNone \<or> tgs = PyList []) \<longrightarrow>
          fst (set_tags pd_Timestamp c date tgs) = None
          \<and> dict_get (meta (snd (set_tags pd_Timestamp c date tgs))) d
              = Some \<lparr>tags = [], comment = stored_comment c d\<rparr>)"
proof -
  have cm: "strip_or_None (comment (meta_get c d)) = stored_comment c d"
    using strip_or_None_meta_get [OF assms(2)] by (simp add: stored_comment_meta_get)
  consider "snd (set_tags pd_Timestamp c date tgs) = c"
    | m' where "snd (set_tags pd_Timestamp c date tgs) = set_tags_finally c d m'"
        "comment m' = stored_comment c d"
    using set_tags_result [of pd_Timestamp c date tgs] assms(1) cm
    by (auto simp: stored_comment_meta_get)
  then have frame: "(\<forall>d'. stored_comment (snd (set_tags pd_Timestamp c date tgs)) d' = stored_comment c d')
    \<and> (\<forall>d'. d' \<noteq> d \<longrightarrow>
          dict_get (meta (snd (set_tags pd_Timestamp c date tgs))) d' = dict_get (meta c) d')"
  proof cases
    case 1
    then show ?thesis by simp
  next
    case 2
    have "stored_comment (set_tags_finally c d m') d' = stored_comment c d'" for d'
      using 2(2) by (auto simp: stored_comment_set_tags_finally DateMeta_len_def)
    with 2(1) show ?thesis
      by (simp add: dict_get_set_tags_finally)
  qed
  have clear: "fst (set_tags pd_Timestamp c date tgs) = None
          \<and> dict_get (meta (snd (set_tags pd_Timestamp c date tgs))) d
              = Some \<lparr>tags = [], comment = stored_comment c d\<rparr>"
    if h: "stored_comment c d \<noteq> None" "tgs = PyNone \<or> tgs = PyList []"
  proof -
    from h(2) obtain ts where ts: "validate_Tags tgs = Inr ts" "or_empty ts = []"
      by (auto simp: or_empty_def)
    from ts(2) have "sorted_set (or_empty ts) = Inr []"
      by (simp only: sorted_set_Nil)
    with ts(1) have "set_tags_body c d tgs
        = (None, set_tags_finally c d \<lparr>tags = [], comment = strip_or_None (comment (meta_get c d))\<rparr>)"
      by (rule set_tags_body_ok)
    with ts(1) assms(1) have eq: "set_tags pd_Timestamp c date tgs
        = (None, set_tags_finally c d \<lparr>tags = [], comment = stored_comment c d\<rparr>)"
      by (simp add: set_tags_decorated cm)
    from h(1) have "0 < DateMeta_len \<lparr>tags = [], comment = stored_comment c d\<rparr>"
      by (simp add: DateMeta_len_def)
    then show ?thesis
      unfolding eq by (simp add: dict_get_set_tags_finally)
  qed
  have clear': "stored_comment c d \<noteq> None \<and> (tgs = PyNone \<or> tgs = PyList []) \<longrightarrow>
          fst (set_tags pd_Timestamp c date tgs) = None
          \<and> dict_get (meta (snd (set_tags pd_Timestamp c date tgs))) d
              = Some \<lparr>tags = [], comment = stored_comment c d\<rparr>"
    using clear by (intro impI) (elim conjE)
  show ?thesis
    by (intro conjI frame [THEN conjunct1] frame [THEN conjunct2] clear')
qed

theorem set_tags_keeps_comment_witness:
  "set_tags (\<lambda>v. Inl ValidationError)
      \<lparr>add = [], remove = [],
       meta = [(1577836800000000000,
                \<lparr>tags = [PyStr ''bar'', PyStr ''foo''], comment = Some ''half day''\<rparr>)]\<rparr>
      (PyTimestamp 1577836800000000000) PyNone
    = (None, \<lparr>add = [], remove = [],
       meta = [(1577836800000000000, \<lparr>tags = [], comment = Some ''half day''\<rparr>)]\<rparr>)
   \<and> set_tags (\<lambda>v. Inl ValidationError)
      \<lparr>add = [], remove = [],
       meta = [(1577836800000000000,
                \<lparr>tags = [PyStr ''bar'', PyStr ''foo''], comment = Some ''half day''\<rparr>)]\<rparr>
      (PyTimestamp 1577836800000000000) (PyList [])
    = (None, \<lparr>add = [], remove = [],
       meta = [(1577836800000000000, \<lparr>tags = [], comment = Some ''half day''\<rparr>)]\<rparr>)
   \<and> stored_comment
        (snd (set_tags (\<lambda>v. Inl ValidationError)
          \<lparr>add = [], remove = [],
           meta = [(1577836800000000000,
                    \<lparr>tags = [PyStr ''bar'', PyStr ''foo''], comment = Some ''half day''\<rparr>)]\<rparr>
          (PyTimestamp 1577836800000000000) (PyList [PyStr ''a'', PyInt 1])))
        1577836800000000000
      = Some ''half day''"
proof -
  let ?pd = "\<lambda>v :: pyval. (Inl ValidationError :: error + Timestamp)"
  let ?c = "\<lparr>add = [], remove = [],
       meta = [(1577836800000000000,
                \<lparr>tags = [PyStr ''bar'', PyStr ''foo''], comment = Some ''half day''\<rparr>)]\<rparr>"
  have h1: "validate_TimestampLike ?pd (PyTimestamp 1577836800000000000) = Inr 1577836800000000000"
    by simp
  have v: "DateMeta_valid \<lparr>tags = [PyStr ''bar'', PyStr ''foo''], comment = Some ''half day''\<rparr>"
    by code_simp
  have h2: "\<forall>m. dict_get (meta ?c) 1577836800000000000 = Some m \<longrightarrow> DateMeta_valid m"
    using v by (simp add: dict_get_def)
  have sc: "stored_comment ?c 1577836800000000000 = Some ''half day''"
    by (simp add: stored_comment_def dict_get_def)
  from set_tags_keeps_comment [OF h1 h2, of PyNone] sc
  have a: "fst (set_tags ?pd ?c (PyTimestamp 1577836800000000000) PyNone) = None"
    "dict_get (meta (snd (set_tags ?pd ?c (PyTimestamp 1577836800000000000) PyNone)))
       1577836800000000000 = Some \<lparr>tags = [], comment = Some ''half day''\<rparr>"
    by simp_all
  from set_tags_keeps_comment [OF h1 h2, of "PyList [PyStr ''a'', PyInt 1]"] sc
  have b: "stored_comment
        (snd (set_tags ?pd ?c (PyTimestamp 1577836800000000000) (PyList [PyStr ''a'', PyInt 1])))
        1577836800000000000 = Some ''half day''"
    by simp
  have v1: "snd (set_tags ?pd ?c (PyTimestamp 1577836800000000000) PyNone)
     = \<lparr>add = [], remove = [],
       meta = [(1577836800000000000, \<lparr>tags = [], comment = Some ''half day''\<rparr>)]\<rparr>"
    by code_simp
  have v2: "set_tags ?pd ?c (PyTimestamp 1577836800000000000) (PyList [])
    = (None, \<lparr>add = [], remove = [],
       meta = [(1577836800000000000, \<lparr>tags = [], comment = Some ''half day''\<rparr>)]\<rparr>)"
    by code_simp
  from a(1) v1 have "set_tags ?pd ?c (PyTimestamp 1577836800000000000) PyNone
     = (None, \<lparr>add = [], remove = [],
       meta = [(1577836800000000000, \<lparr>tags = [], comment = Some ''half day''\<rparr>)]\<rparr>)"
    by (simp add: prod_eq_iff)
  with v2 b show ?thesis
    by blast
qed

subsection \<open>Sorted sets, stripped comments\<close>

lemma distinct_first_subset: "set (distinct_first xs) \<subseteq> set xs"
  by (induction xs rule: distinct_first.induct) auto

lemma distinct_first_keys: "py_key ` set (distinct_first xs) = py_key ` set xs"
  by (induction xs rule: distinct_first.induct) auto

lemma distinct_distinct_first: "distinct (map py_key (distinct_first xs))"
proof (induction xs rule: distinct_first.induct)
  case 1
  then show ?case by simp
next
  case (2 x xs)
  have "py_key x \<notin> py_key ` set (distinct_first (filter (\<lambda>y. py_key y \<noteq> py_key x) xs))"
    by (auto simp: distinct_first_keys)
  with 2 show ?case by simp
qed

lemma distinct_first_id: "distinct (map py_key xs) \<Longrightarrow> distinct_first xs = xs"
proof (induction xs)
  case Nil
  then show ?case by simp
next
  case (Cons x xs)
  then have "filter (\<lambda>y. py_key y \<noteq> py_key x) xs = xs"
    by (auto simp: filter_id_conv) (metis imageI)
  with Cons show ?case by simp
qed

lemma distinct_map_insort_key:
  "distinct (map f (insort_key k x xs)) = (f x \<notin> f ` set xs \<and> distinct (map f xs))"
  by (induction xs) (auto simp: set_insort_key)

lemma distinct_map_sort_key: "distinct (map f (sort_key k xs)) = distinct (map f xs)"
  by (induction xs) (simp_all add: distinct_map_insort_key)

lemma sort_by_Some:
  assumes "sort_by k xs = Some ys"
  shows "set ys = set xs \<and> length ys = length xs \<and> sort_by k ys = Some ys
         \<and> distinct (map f ys) = distinct (map f xs)"
proof -
  from assms have all: "list_all (\<lambda>x. k x \<noteq> None) xs" and ys: "ys = sort_key k xs"
    by (auto simp: sort_by_def split: if_splits)
  have "sort_key k ys = ys"
    by (simp add: ys sort_key_id_if_sorted)
  with all have "sort_by k ys = Some ys"
    by (simp add: sort_by_def ys list_all_iff)
  then show ?thesis
    by (simp add: ys distinct_map_sort_key)
qed

lemma sort_by_None_cong: "set xs = set ys \<Longrightarrow> sort_by k xs = None \<Longrightarrow> sort_by k ys = None"
  by (auto simp: sort_by_def list_all_iff split: if_splits)

lemma py_sorted_Inr:
  assumes "py_sorted xs = Inr ys"
  shows "py_sorted ys = Inr ys \<and> set ys = set xs
         \<and> distinct (map py_key ys) = distinct (map py_key xs)"
proof (cases "length xs \<le> 1")
  case True
  with assms show ?thesis by (simp add: py_sorted_def)
next
  case False
  note len = False
  show ?thesis
  proof (cases "sort_by str_key xs")
    case (Some zs)
    with assms len have "zs = ys" by (simp add: py_sorted_def)
    with sort_by_Some [OF Some, of py_key] len show ?thesis
      by (simp add: py_sorted_def)
  next
    case None
    note s = None
    show ?thesis
    proof (cases "sort_by int_key xs")
      case (Some zs)
      with assms len s have "zs = ys" by (simp add: py_sorted_def)
      with sort_by_Some [OF Some, of py_key] len sort_by_None_cong [OF _ s, of ys]
      show ?thesis
        by (simp add: py_sorted_def)
    next
      case None
      note i = None
      show ?thesis
      proof (cases "sort_by time_key xs")
        case (Some zs)
        with assms len s i have "zs = ys" by (simp add: py_sorted_def)
        with sort_by_Some [OF Some, of py_key] len sort_by_None_cong [OF _ s, of ys]
          sort_by_None_cong [OF _ i, of ys]
        show ?thesis
          by (simp add: py_sorted_def)
      next
        case None
        note t = None
        show ?thesis
        proof (cases "sort_by timestamp_key xs")
          case (Some zs)
          with assms len s i t have "zs = ys" by (simp add: py_sorted_def)
          with sort_by_Some [OF Some, of py_key] len sort_by_None_cong [OF _ s, of ys]
            sort_by_None_cong [OF _ i, of ys] sort_by_None_cong [OF _ t, of ys]
          show ?thesis
            by (simp add: py_sorted_def)
        next
          case None
          with assms len s i t show ?thesis by (simp add: py_sorted_def)
        qed
      qed
    qed
  qed
qed

lemma sorted_set_idem:
  assumes "sorted_set xs = Inr ys"
  shows "sorted_set ys = Inr ys"
proof -
  from assms have h: "list_all (\<lambda>x. py_key x \<noteq> None) xs"
    and s: "py_sorted (distinct_first xs) = Inr ys"
    by (auto simp: sorted_set_def py_set_def split: if_splits)
  from py_sorted_Inr [OF s] have ys: "py_sorted ys = Inr ys" "set ys = set (distinct_first xs)"
    "distinct (map py_key ys)"
    by (simp_all add: distinct_distinct_first)
  from ys(2) h have "list_all (\<lambda>x. py_key x \<noteq> None) ys"
    using distinct_first_subset [of xs] by (auto simp: list_all_iff)
  with ys(1,3) show ?thesis
    by (simp add: sorted_set_def py_set_def distinct_first_id)
qed

lemma dropWhile_rev_dropWhile:
  "dropWhile P (rev (dropWhile P (rev (dropWhile P s)))) = rev (dropWhile P (rev (dropWhile P s)))"
proof -
  let ?t = "dropWhile P s"
  let ?u = "dropWhile P (rev ?t)"
  have "rev ?t = takeWhile P (rev ?t) @ ?u"
    by simp
  then have t: "?t = rev ?u @ rev (takeWhile P (rev ?t))"
    by (metis rev_append rev_rev_ident)
  show ?thesis
  proof (cases "rev ?u = []")
    case True
    then have u: "?u = []" by (simp only: rev_is_Nil_conv)
    show ?thesis unfolding u by simp
  next
    case False
    with t have "hd (rev ?u) = hd ?t"
      by (metis hd_append2)
    moreover from False t have "?t \<noteq> []"
      by (metis append_is_Nil_conv)
    then have "\<not> P (hd ?t)"
      by (rule hd_dropWhile)
    ultimately show ?thesis
      using False by (simp add: dropWhile_eq_self_iff)
  qed
qed

lemma strip_strip: "strip (strip s) = strip s"
  by (simp add: strip_def dropWhile_rev_dropWhile)

lemma DateMeta_canonicalize_valid:
  assumes "DateMeta_canonicalize m = Inr m'"
  shows "DateMeta_valid m'"
proof -
  from assms obtain ts where ts: "sorted_set (tags m) = Inr ts"
    and m': "m' = \<lparr>tags = ts, comment = strip_or_None (comment m)\<rparr>"
    by (auto simp: DateMeta_canonicalize_def split: sum.splits)
  from sorted_set_idem [OF ts] show ?thesis
    by (auto simp: DateMeta_valid_def m' strip_or_None_def strip_strip split: option.splits)
qed

lemma DateMeta_valid_canonicalize: "DateMeta_valid m \<Longrightarrow> DateMeta_canonicalize m = Inr m"
  by (cases m) (auto simp: DateMeta_valid_def DateMeta_canonicalize_def strip_or_None_def
      split: option.splits)

lemma DateMeta_default_valid: "DateMeta_valid DateMeta_default"
  by (simp add: DateMeta_valid_def DateMeta_default_def)

lemma str_key_PyStr [simp]: "str_key (PyStr z) = Some z"
  by (simp add: str_key_def)

lemma py_sorted_strs:
  assumes "set s \<subseteq> range PyStr"
  shows "\<exists>ys. py_sorted s = Inr ys \<and> set ys = set s \<and> sorted (map str_key ys)
              \<and> distinct (map py_key ys) = distinct (map py_key s)"
proof (cases "length s \<le> 1")
  case True
  then have "sorted (map str_key s)"
    by (cases s) auto
  with True show ?thesis
    by (simp add: py_sorted_def)
next
  case False
  from assms have "list_all (\<lambda>x. str_key x \<noteq> None) s"
    by (auto simp: list_all_iff)
  then have "sort_by str_key s = Some (sort_key str_key s)"
    by (simp add: sort_by_def)
  with False show ?thesis
    by (simp add: py_sorted_def distinct_map_sort_key)
qed

lemma sorted_set_strs:
  "sorted_set (map PyStr xs) = Inr (map PyStr (sorted_list_of_set (set xs)))"
proof -
  let ?s = "distinct_first (map PyStr xs)"
  have sub: "set ?s \<subseteq> range PyStr"
    using distinct_first_subset [of "map PyStr xs"] by auto
  from py_sorted_strs [OF sub] obtain ys where ys: "py_sorted ?s = Inr ys" "set ys = set ?s"
    "sorted (map str_key ys)" "distinct (map py_key ys)"
    by (auto simp: distinct_distinct_first)
  have res: "sorted_set (map PyStr xs) = Inr ys"
    using ys(1) by (simp add: sorted_set_def py_set_def list_all_iff)
  from ys(2) sub have "\<forall>y \<in> set ys. \<exists>z. y = PyStr z"
    by auto
  then obtain zs where zs: "ys = map PyStr zs"
    by (metis ex_map_conv)
  from ys(3) have "sorted zs"
    by (simp add: zs sorted_map sorted_wrt_map comp_def) 
  moreover from ys(4) have "distinct zs"
    by (simp add: zs distinct_map comp_def inj_on_def) 
  moreover have "set zs = set xs"
  proof -
    have "py_key ` set ys = py_key ` set (map PyStr xs)"
      by (simp only: ys(2) distinct_first_keys)
    then have "(\<lambda>z. Some (KStr z)) ` set zs = (\<lambda>z. Some (KStr z)) ` set xs"
      by (simp add: zs image_image)
    then show ?thesis
      by (auto dest: equalityD1 equalityD2 simp: image_iff subset_iff)
  qed
  ultimately have "zs = sorted_list_of_set (set xs)"
    by (intro sorted_distinct_set_unique) simp_all
  with res zs show ?thesis by simp
qed

subsection \<open>Setting tags\<close>

text \<open>
  With a list of strings \<^verbatim>\<open>set_tags\<close> succeeds and stores the tags sorted and without
  duplicates; it never writes an entry of size 0, and a \<open>meta\<close> without such entries stays
  so (\<open>set_tags_keeps_nonempty\<close>). Where the assignment of the tags raises, the handler
  restores the previous tags, and the changeset is what it was before the call provided the
  metadata stored for the date satisfies the invariant of \<^verbatim>\<open>DateMeta\<close> and is not empty.
\<close>

lemma set_tags_strs:
  assumes "validate_TimestampLike pd_Timestamp date = Inr d"
  shows "set_tags pd_Timestamp c date (PyList (map PyStr xs)) =
           (None, set_tags_finally c d
                    \<lparr>tags = map PyStr (sorted_list_of_set (set xs)),
                     comment = strip_or_None (stored_comment c d)\<rparr>)"
proof -
  have "set_tags_body c d (PyList (map PyStr xs)) =
           (None, set_tags_finally c d
                    \<lparr>tags = map PyStr (sorted_list_of_set (set xs)),
                     comment = strip_or_None (comment (meta_get c d))\<rparr>)"
    by (rule set_tags_body_ok [where ts = "Some (map PyStr xs)"])
       (simp_all add: or_empty_def sorted_set_strs)
  with assms show ?thesis
    by (simp add: set_tags_decorated stored_comment_meta_get)
qed

lemma set_tags_finally_same:
  assumes "\<forall>m. dict_get (meta c) d = Some m \<longrightarrow> 0 < DateMeta_len m"
  shows "set_tags_finally c d (meta_get c d) = c"
proof (cases "dict_get (meta c) d")
  case None
  then have "d \<notin> set (keys (meta c))"
    by (simp add: dict_get_None_iff)
  with None show ?thesis
    by (simp add: set_tags_finally_def meta_get_def DateMeta_len_def DateMeta_default_def
        dict_pop_absent)
next
  case (Some m)
  with assms show ?thesis
    by (simp add: set_tags_finally_def meta_get_def dict_setitem_same)
qed

lemma set_tags_rollback:
  assumes "validate_TimestampLike pd_Timestamp date = Inr d"
    and "validate_Tags tgs = Inr ts" and "sorted_set (or_empty ts) = Inl e"
    and "\<forall>m. dict_get (meta c) d = Some m \<longrightarrow> DateMeta_valid m \<and> 0 < DateMeta_len m"
  shows "set_tags pd_Timestamp c date tgs = (Some e, c)"
proof -
  let ?m = "meta_get c d"
  have valid: "DateMeta_valid ?m"
    using assms(4) by (auto simp: meta_get_def DateMeta_default_valid split: option.splits)
  have fail: "DateMeta_set_tags ?m tgs = (Some e, ?m\<lparr>tags := or_empty ts\<rparr>)"
    using assms(2,3) by (rule DateMeta_set_tags_fails)
  have "(?m\<lparr>tags := or_empty ts\<rparr>)\<lparr>tags := tags ?m\<rparr> = ?m"
    by simp
  with DateMeta_valid_canonicalize [OF valid]
  have restore: "DateMeta_set_tags (?m\<lparr>tags := or_empty ts\<rparr>) (PyList (tags ?m)) = (None, ?m)"
    by (simp add: DateMeta_set_tags_def or_empty_def)
  have same: "set_tags_finally c d ?m = c"
    using assms(4) by (intro set_tags_finally_same) simp
  have "set_tags_body c d tgs = (Some e, c)"
    using fail restore same by (simp add: set_tags_body_def Let_def)
  with assms(1,2) show ?thesis
    by (simp add: set_tags_decorated)
qed

lemma set_tags_refused:
  assumes "validate_Tags tgs = Inl e"
  shows "\<exists>e'. set_tags pd_Timestamp c date tgs = (Some e', c)"
  using assms
  by (cases "validate_TimestampLike pd_Timestamp date")
     (auto simp: set_tags_def collect_def)


text \<open>
  Claim C5. \<^verbatim>\<open>set_tags\<close> stores the tags sorted and without duplicates and leaves the date
  absent where there is nothing to store; a \<^verbatim>\<open>DateMeta\<close> of size 0 is never stored in \<open>meta\<close>.
  The first part holds (\<open>set_tags_strs\<close>, \<open>set_tags_keeps_nonempty\<close>). The constructor,
  however, does not purge: built from \<^verbatim>\<open>{'meta': {'2020-01-01': {}}}\<close> the changeset stores a
  \<^verbatim>\<open>DateMeta\<close> of size 0 for 2020-01-01, and a later \<^verbatim>\<open>set_tags\<close> for 2020-01-02 leaves it there.
\<close>

theorem constructor_keeps_empty_meta:
  "validate_ChangeSet (\<lambda>v. Inl ValidationError) (\<lambda>s f. None)
     (PyDict [(PyStr ''meta'', PyDict [(PyTimestamp 1577836800000000000, PyDict [])])])
   = Inr \<lparr>add = [], remove = [],
          meta = [(1577836800000000000, \<lparr>tags = [], comment = None\<rparr>)]\<rparr>
   \<and> DateMeta_len \<lparr>tags = [], comment = None\<rparr> = 0
   \<and> set_tags (\<lambda>v. Inl ValidationError)
        \<lparr>add = [], remove = [],
         meta = [(1577836800000000000, \<lparr>tags = [], comment = None\<rparr>)]\<rparr>
        (PyTimestamp 1577923200000000000) (PyList [PyStr ''foo''])
     = (None, \<lparr>add = [], remove = [],
               meta = [(1577836800000000000, \<lparr>tags = [], comment = None\<rparr>),
                       (1577923200000000000, \<lparr>tags = [PyStr ''foo''], comment = None\<rparr>)]\<rparr>)"
  by code_simp

text \<open>
  Claim C6. If \<^verbatim>\<open>set_tags(d, ts)\<close> fails because the assignment of the tags is invalid, the
  error reaches the caller, the previous tags are restored, and the changeset is what it was
  before the call. This holds wherever the metadata stored for \<open>d\<close> is valid and not empty,
  or absent (\<open>set_tags_rollback\<close>). But on the changeset built from
  \<^verbatim>\<open>{'meta': {'2020-01-01': {}}}\<close>, \<^verbatim>\<open>set_tags('2020-01-01', ['a', 1])\<close> raises \<^verbatim>\<open>TypeError\<close> and
  the \<^verbatim>\<open>finally\<close> block removes the entry of 2020-01-01: the state is not what it was.
\<close>

theorem set_tags_failure_purges_empty_meta:
  "validate_ChangeSet (\<lambda>v. Inl ValidationError) (\<lambda>s f. None)
     (PyDict [(PyStr ''meta'', PyDict [(PyTimestamp 1577836800000000000, PyDict [])])])
   = Inr \<lparr>add = [], remove = [],
          meta = [(1577836800000000000, \<lparr>tags = [], comment = None\<rparr>)]\<rparr>
   \<and> set_tags (\<lambda>v. Inl ValidationError)
        \<lparr>add = [], remove = [],
         meta = [(1577836800000000000, \<lparr>tags = [], comment = None\<rparr>)]\<rparr>
        (PyTimestamp 1577836800000000000) (PyList [PyStr ''a'', PyInt 1])
     = (Some TypeError, \<lparr>add = [], remove = [], meta = []\<rparr>)"
  by code_simp

subsection \<open>Day properties\<close>


lemma extra_forbid_keys: "extra_forbid fs kvs \<Longrightarrow> set (keys kvs) \<subseteq> PyStr ` set fs"
  by (induction kvs) (auto simp: extra_forbid_def keys_def split: pyval.splits)

lemma validate_str_Inr: "validate_str f = Inr n \<Longrightarrow> f = Some (PyStr n)"
  by (auto simp: validate_str_def split: option.splits pyval.splits)

lemma collect_Inr: "collect r1 r2 = Inr (a, b) \<Longrightarrow> r1 = Inr a \<and> r2 = Inr b"
  by (auto simp: collect_def split: sum.splits if_splits)

lemma as_ValidationError_Inr: "as_ValidationError r = Inr a \<Longrightarrow> r = Inr a"
  by (auto simp: as_ValidationError_def split: sum.splits if_splits)

lemma validate_DayProps_Inr:
  assumes "validate_DayProps kvs = Inr p"
  shows "\<exists>n t. p = DayProps n t \<and> t \<in> {HOLIDAY, MONTHLY_EXPIRY, QUARTERLY_EXPIRY}
          \<and> map_of kvs (PyStr ''name'') = Some (PyStr n)
          \<and> Option.bind (map_of kvs (PyStr ''type'')) DayType_of_pyval = Some t
          \<and> extra_forbid [''name'', ''type''] kvs"
  using assms
  by (auto simp: validate_DayProps_def split: option.splits sum.splits if_splits
      dest!: validate_str_Inr)

lemma validate_DayPropsWithTime_Inr:
  assumes "validate_DayPropsWithTime strptime kvs = Inr p"
  shows "\<exists>n t tm v. p = DayPropsWithTime n t tm \<and> t \<in> {SPECIAL_OPEN, SPECIAL_CLOSE}
          \<and> map_of kvs (PyStr ''name'') = Some (PyStr n)
          \<and> Option.bind (map_of kvs (PyStr ''type'')) DayType_of_pyval = Some t
          \<and> map_of kvs (PyStr ''time'') = Some v \<and> to_time strptime v = Inr tm
          \<and> extra_forbid [''name'', ''type'', ''time''] kvs"
proof -
  from assms obtain t where t: "Option.bind (map_of kvs (PyStr ''type'')) DayType_of_pyval = Some t"
    by (auto simp: validate_DayPropsWithTime_def split: option.splits)
  from assms t obtain n tm where
    c: "collect (validate_str (map_of kvs (PyStr ''name'')))
                  (case map_of kvs (PyStr ''time'') of
                     None \<Rightarrow> Inl ValidationError
                   | Some v \<Rightarrow> as_ValidationError (to_time strptime v)) = Inr (n, tm)"
    and rest: "t \<in> {SPECIAL_OPEN, SPECIAL_CLOSE}" "extra_forbid [''name'', ''type'', ''time''] kvs"
      "p = DayPropsWithTime n t tm"
    by (auto simp: validate_DayPropsWithTime_def split: sum.splits if_splits)
  from collect_Inr [OF c] have n: "map_of kvs (PyStr ''name'') = Some (PyStr n)"
    and tm: "(case map_of kvs (PyStr ''time'') of
                     None \<Rightarrow> Inl ValidationError
                   | Some v \<Rightarrow> as_ValidationError (to_time strptime v)) = Inr tm"
    by (auto dest: validate_str_Inr)
  from tm obtain v where "map_of kvs (PyStr ''time'') = Some v" "to_time strptime v = Inr tm"
    by (auto split: option.splits dest: as_ValidationError_Inr)
  with t n rest show ?thesis by blast
qed

lemma to_time_Inr:
  "(to_time strptime v = Inr t) =
     (v = PyTime t \<or> (\<exists>s. v = PyStr s \<and> (strptime s ''%H:%M'' = Some t
         \<or> strptime s ''%H:%M'' = None \<and> strptime s ''%H:%M:%S'' = Some t)))"
  by (cases v) (auto simp: to_time_def split: option.splits)

lemma time_not_in_keys:
  "set (keys kvs) \<subseteq> PyStr ` set [''name'', ''type''] \<Longrightarrow> PyStr ''time'' \<notin> set (keys kvs)"
  by auto

text \<open>
  Claim C7. Constructing a day-properties value validates its shape. Whenever validation
  succeeds: the input is a mapping with a valid \<^verbatim>\<open>type\<close> and a string \<^verbatim>\<open>name\<close>; for
  \<^verbatim>\<open>SPECIAL_OPEN\<close> and \<^verbatim>\<open>SPECIAL_CLOSE\<close> the field \<^verbatim>\<open>time\<close> is present and is a time object or a
  string that parses under \<^verbatim>\<open>%H:%M\<close> or \<^verbatim>\<open>%H:%M:%S\<close>; for \<^verbatim>\<open>HOLIDAY\<close>, \<^verbatim>\<open>MONTHLY_EXPIRY\<close> and
  \<^verbatim>\<open>QUARTERLY_EXPIRY\<close> there is no field \<^verbatim>\<open>time\<close>; and there is no key other than the declared
  fields. So a missing or unparsable time, a time on a plain day, and an unknown extra
  field are all validation failures.
\<close>

theorem validate_DayPropsLike_shape:
  assumes "validate_DayPropsLike strptime v = Inr p"
  shows "\<exists>kvs tv. v = PyDict kvs
     \<and> map_of kvs (PyStr ''type'') = Some tv \<and> DayType_of_pyval tv = Some (type p)
     \<and> map_of kvs (PyStr ''name'') = Some (PyStr (name p))
     \<and> (type p \<in> {SPECIAL_OPEN, SPECIAL_CLOSE} \<longrightarrow>
          (\<exists>tmv. map_of kvs (PyStr ''time'') = Some tmv
             \<and> (tmv = PyTime (time p)
                \<or> (\<exists>s. tmv = PyStr s
                     \<and> (strptime s ''%H:%M'' = Some (time p)
                        \<or> strptime s ''%H:%M'' = None \<and> strptime s ''%H:%M:%S'' = Some (time p)))))
          \<and> p = DayPropsWithTime (name p) (type p) (time p)
          \<and> set (keys kvs) \<subseteq> {PyStr ''name'', PyStr ''type'', PyStr ''time''})
     \<and> (type p \<in> {HOLIDAY, MONTHLY_EXPIRY, QUARTERLY_EXPIRY} \<longrightarrow>
          PyStr ''time'' \<notin> set (keys kvs)
          \<and> p = DayProps (name p) (type p)
          \<and> set (keys kvs) \<subseteq> {PyStr ''name'', PyStr ''type''})"
proof -
  from assms obtain kvs where v: "v = PyDict kvs"
    by (cases v) (auto simp: validate_DayPropsLike_def)
  from assms v obtain t where
    t: "Option.bind (map_of kvs (PyStr ''type'')) DayType_of_pyval = Some t"
    by (auto simp: validate_DayPropsLike_def split: option.splits)
  then obtain tv where tv: "map_of kvs (PyStr ''type'') = Some tv" "DayType_of_pyval tv = Some t"
    by (cases "map_of kvs (PyStr ''type'')") auto
  show ?thesis
  proof (cases "t \<in> {HOLIDAY, MONTHLY_EXPIRY, QUARTERLY_EXPIRY}")
    case True
    with assms v t have "validate_DayProps kvs = Inr p"
      by (simp add: validate_DayPropsLike_def)
    from validate_DayProps_Inr [OF this] obtain n t' where
      p: "p = DayProps n t'" and t': "t' \<in> {HOLIDAY, MONTHLY_EXPIRY, QUARTERLY_EXPIRY}"
      and n: "map_of kvs (PyStr ''name'') = Some (PyStr n)"
      and tt: "Option.bind (map_of kvs (PyStr ''type'')) DayType_of_pyval = Some t'"
      and ex: "extra_forbid [''name'', ''type''] kvs"
      by blast
    from tt t have [simp]: "t' = t" by simp
    from extra_forbid_keys [OF ex] have ks: "set (keys kvs) \<subseteq> {PyStr ''name'', PyStr ''type''}"
      by simp
    then have "PyStr ''time'' \<notin> set (keys kvs)"
      by auto
    with v tv p t' n ks show ?thesis
      by auto
  next
    case False
    with assms v t have "validate_DayPropsWithTime strptime kvs = Inr p"
      by (simp add: validate_DayPropsLike_def)
    from validate_DayPropsWithTime_Inr [OF this] obtain n t' tm tmv where
      p: "p = DayPropsWithTime n t' tm" and t': "t' \<in> {SPECIAL_OPEN, SPECIAL_CLOSE}"
      and n: "map_of kvs (PyStr ''name'') = Some (PyStr n)"
      and tt: "Option.bind (map_of kvs (PyStr ''type'')) DayType_of_pyval = Some t'"
      and tm: "map_of kvs (PyStr ''time'') = Some tmv" "to_time strptime tmv = Inr tm"
      and ex: "extra_forbid [''name'', ''type'', ''time''] kvs"
      by blast
    from tt t have [simp]: "t' = t" by simp
    from extra_forbid_keys [OF ex]
    have ks: "set (keys kvs) \<subseteq> {PyStr ''name'', PyStr ''type'', PyStr ''time''}"
      by simp
    from tm(2) have "tmv = PyTime tm \<or> (\<exists>s. tmv = PyStr s \<and> (strptime s ''%H:%M'' = Some tm
         \<or> strptime s ''%H:%M'' = None \<and> strptime s ''%H:%M:%S'' = Some tm))"
      by (simp add: to_time_Inr)
    with v tv p t' n ks tm(1) show ?thesis
      by auto
  qed
qed


theorem validate_DayPropsLike_shape_witness:
  "validate_DayPropsLike
      (\<lambda>s f. if s = ''10:00'' \<and> f = ''%H:%M'' then Some (Time 10 0 0) else None)
      (PyDict [(PyStr ''type'', PyStr ''special_open''), (PyStr ''name'', PyStr ''Special Open''),
               (PyStr ''time'', PyStr ''10:00'')])
     = Inr (DayPropsWithTime ''Special Open'' SPECIAL_OPEN (Time 10 0 0))
   \<and> map_of [(PyStr ''type'', PyStr ''special_open''), (PyStr ''name'', PyStr ''Special Open''),
              (PyStr ''time'', PyStr ''10:00'')] (PyStr ''time'') = Some (PyStr ''10:00'')
   \<and> validate_DayPropsLike
      (\<lambda>s f. if s = ''10:00'' \<and> f = ''%H:%M'' then Some (Time 10 0 0) else None)
      (PyDict [(PyStr ''type'', PyStr ''special_open''), (PyStr ''name'', PyStr ''Special Open'')])
     = Inl ValidationError
   \<and> validate_DayPropsLike
      (\<lambda>s f. if s = ''10:00'' \<and> f = ''%H:%M'' then Some (Time 10 0 0) else None)
      (PyDict [(PyStr ''type'', PyStr ''special_open''), (PyStr ''name'', PyStr ''Special Open''),
               (PyStr ''time'', PyStr ''ten'')])
     = Inl ValidationError
   \<and> validate_DayPropsLike
      (\<lambda>s f. if s = ''10:00'' \<and> f = ''%H:%M'' then Some (Time 10 0 0) else None)
      (PyDict [(PyStr ''type'', PyStr ''holiday''), (PyStr ''name'', PyStr ''Holiday''),
               (PyStr ''time'', PyStr ''10:00'')])
     = Inl ValidationError
   \<and> validate_DayPropsLike
      (\<lambda>s f. if s = ''10:00'' \<and> f = ''%H:%M'' then Some (Time 10 0 0) else None)
      (PyDict [(PyStr ''type'', PyStr ''holiday''), (PyStr ''name'', PyStr ''Holiday''),
               (PyStr ''foo'', PyStr ''bar'')])
     = Inl ValidationError
   \<and> validate_DayPropsLike
      (\<lambda>s f. if s = ''10:00'' \<and> f = ''%H:%M'' then Some (Time 10 0 0) else None)
      (PyDict [(PyStr ''type'', PyStr ''holiday''), (PyStr ''name'', PyStr ''Holiday'')])
     = Inr (DayProps ''Holiday'' HOLIDAY)"
proof -
  let ?strptime = "\<lambda>s f. if s = ''10:00'' \<and> f = ''%H:%M'' then Some (Time 10 0 0) else None"
  let ?kvs = "[(PyStr ''type'', PyStr ''special_open''), (PyStr ''name'', PyStr ''Special Open''),
               (PyStr ''time'', PyStr ''10:00'')]"
  have h: "validate_DayPropsLike ?strptime (PyDict ?kvs)
           = Inr (DayPropsWithTime ''Special Open'' SPECIAL_OPEN (Time 10 0 0))"
    by code_simp
  from validate_DayPropsLike_shape [OF h]
  have 1: "map_of ?kvs (PyStr ''time'') = Some (PyStr ''10:00'')"
    by auto
  have 2: "validate_DayPropsLike ?strptime
      (PyDict [(PyStr ''type'', PyStr ''special_open''), (PyStr ''name'', PyStr ''Special Open'')])
     = Inl ValidationError"
    by code_simp
  have 3: "validate_DayPropsLike ?strptime
      (PyDict [(PyStr ''type'', PyStr ''special_open''), (PyStr ''name'', PyStr ''Special Open''),
               (PyStr ''time'', PyStr ''ten'')])
     = Inl ValidationError"
    by code_simp
  have 4: "validate_DayPropsLike ?strptime
      (PyDict [(PyStr ''type'', PyStr ''holiday''), (PyStr ''name'', PyStr ''Holiday''),
               (PyStr ''time'', PyStr ''10:00'')])
     = Inl ValidationError"
    by code_simp
  have 5: "validate_DayPropsLike ?strptime
      (PyDict [(PyStr ''type'', PyStr ''holiday''), (PyStr ''name'', PyStr ''Holiday''),
               (PyStr ''foo'', PyStr ''bar'')])
     = Inl ValidationError"
    by code_simp
  have 6: "validate_DayPropsLike ?strptime
      (PyDict [(PyStr ''type'', PyStr ''holiday''), (PyStr ''name'', PyStr ''Holiday'')])
     = Inr (DayProps ''Holiday'' HOLIDAY)"
    by code_simp
  from h 1 2 3 4 5 6 show ?thesis
    by blast
qed

subsection \<open>Serialising and parsing again\<close>


lemma validate_each_map:
  "(\<And>x. x \<in> set xs \<Longrightarrow> f (g x) = Inr x) \<Longrightarrow> validate_each f (map g xs) = Inr xs"
  by (induction xs) (simp_all add: collect_def)

lemma validate_each_Inr:
  "validate_each f xs = Inr ys \<Longrightarrow> \<forall>y \<in> set ys. \<exists>x \<in> set xs. f x = Inr y"
proof (induction xs arbitrary: ys)
  case Nil
  then show ?case by simp
next
  case (Cons x xs)
  from Cons.prems obtain y ys' where
    c: "collect (f x) (validate_each f xs) = Inr (y, ys')" and ys: "ys = y # ys'"
    by (auto split: sum.splits)
  from collect_Inr [OF c] have "f x = Inr y" "validate_each f xs = Inr ys'"
    by simp_all
  with Cons.IH ys show ?case by auto
qed

lemma dict_setitem_new: "k \<notin> set (keys d) \<Longrightarrow> dict_setitem k v d = d @ [(k, v)]"
  by (induction d) (auto simp: keys_def)

lemma foldl_dict_setitem_distinct:
  "distinct (keys (acc @ items)) \<Longrightarrow>
   foldl (\<lambda>d p. dict_setitem (fst p) (snd p) d) acc items = acc @ items"
proof (induction items arbitrary: acc)
  case Nil
  then show ?case by simp
next
  case (Cons p items)
  from Cons.prems have "fst p \<notin> set (keys acc)"
    by (auto simp: keys_def)
  then have "dict_setitem (fst p) (snd p) acc = acc @ [p]"
    by (simp add: dict_setitem_new)
  moreover from Cons.prems have "distinct (keys ((acc @ [p]) @ items))"
    by (simp add: keys_def)
  ultimately show ?case
    using Cons.IH [of "acc @ [p]"] by simp
qed

lemma dict_of_items_distinct: "distinct (keys items) \<Longrightarrow> dict_of_items items = items"
  using foldl_dict_setitem_distinct [of "[]" items] by (simp add: dict_of_items_def)

lemma foldl_dict_setitem_props:
  "distinct (keys acc) \<Longrightarrow>
   distinct (keys (foldl (\<lambda>d p. dict_setitem (fst p) (snd p) d) acc items))
   \<and> set (foldl (\<lambda>d p. dict_setitem (fst p) (snd p) d) acc items) \<subseteq> set acc \<union> set items"
proof (induction items arbitrary: acc)
  case Nil
  then show ?case by simp
next
  case (Cons p items)
  have d: "distinct (keys (dict_setitem (fst p) (snd p) acc))"
    using Cons.prems by (simp add: keys_dict_setitem)
  have s: "set (dict_setitem (fst p) (snd p) acc) \<subseteq> insert p (set acc)"
    using set_dict_setitem [of "fst p" "snd p" acc] by simp
  from Cons.IH [OF d] s show ?case
    by auto
qed

lemma dict_of_items_props:
  "distinct (keys (dict_of_items items)) \<and> set (dict_of_items items) \<subseteq> set items"
  using foldl_dict_setitem_props [of "[]" items] by (simp add: dict_of_items_def keys_def)

lemma validate_DayPropsLike_dump:
  "DayPropsLike_valid p \<Longrightarrow> validate_DayPropsLike strptime (DayPropsLike_dump p) = Inr p"
  by (cases p)
     (auto simp: DayPropsLike_valid_def DayPropsLike_dump_def validate_DayPropsLike_def
       validate_DayProps_def validate_DayPropsWithTime_def DayType_of_pyval_def validate_str_def
       collect_def as_ValidationError_def to_time_def extra_forbid_def)

lemma validate_DayPropsLike_valid:
  assumes "validate_DayPropsLike strptime v = Inr p"
  shows "DayPropsLike_valid p"
proof -
  from assms obtain kvs where v: "v = PyDict kvs"
    by (cases v) (auto simp: validate_DayPropsLike_def)
  from assms v consider "validate_DayProps kvs = Inr p" | "validate_DayPropsWithTime strptime kvs = Inr p"
    by (auto simp: validate_DayPropsLike_def split: option.splits if_splits)
  then show ?thesis
  proof cases
    case 1
    from validate_DayProps_Inr [OF 1] show ?thesis
      by (auto simp: DayPropsLike_valid_def)
  next
    case 2
    from validate_DayPropsWithTime_Inr [OF 2] show ?thesis
      by (auto simp: DayPropsLike_valid_def)
  qed
qed

lemma validate_DateMeta_dump:
  assumes "DateMeta_valid m"
  shows "validate_DateMeta (DateMeta_dump m) = Inr m"
proof -
  have c: "validate_comment (Some (case comment m of None \<Rightarrow> PyNone | Some s \<Rightarrow> PyStr s))
           = Inr (comment m)"
    by (simp add: validate_comment_def split: option.splits)
  have r: "\<lparr>tags = tags m, comment = comment m\<rparr> = m"
    by (cases m) simp
  have "DateMeta_canonicalize \<lparr>tags = tags m, comment = comment m\<rparr> = Inr m"
    using DateMeta_valid_canonicalize [OF assms] by (simp only: r)
  with c show ?thesis
    by (simp add: validate_DateMeta_def DateMeta_dump_def collect_def extra_forbid_def
        or_empty_def)
qed

lemma validate_DateMeta_valid:
  assumes "validate_DateMeta v = Inr m"
  shows "DateMeta_valid m"
proof -
  from assms obtain m0 where "DateMeta_canonicalize m0 = Inr m"
    by (auto simp: validate_DateMeta_def split: pyval.splits sum.splits if_splits)
  then show ?thesis
    by (rule DateMeta_canonicalize_valid)
qed

lemma validate_items_dump:
  assumes "distinct (keys d)" and "\<And>x. x \<in> set d \<Longrightarrow> vv (dumpv (snd x)) = Inr (snd x)"
  shows "validate_items (validate_TimestampLike pd_Timestamp) vv
           (Some (PyDict (map (\<lambda>p. (PyTimestamp (fst p), dumpv (snd p))) d))) = Inr d"
proof -
  have "validate_each (\<lambda>p. collect (validate_TimestampLike pd_Timestamp (fst p)) (vv (snd p)))
          (map (\<lambda>p. (PyTimestamp (fst p), dumpv (snd p))) d) = Inr d"
    using assms(2) by (intro validate_each_map) (simp add: collect_def)
  with assms(1) show ?thesis
    by (simp add: validate_items_def dict_of_items_distinct)
qed

lemma validate_list_dump:
  "validate_list (validate_TimestampLike pd_Timestamp) (Some (PyList (map PyTimestamp r))) = Inr r"
  by (simp add: validate_list_def validate_each_map)

lemma validate_items_valid:
  assumes "validate_items vk vv f = Inr d" and "\<And>v y. vv v = Inr y \<Longrightarrow> P y"
  shows "distinct (keys d) \<and> list_all P (map snd d)"
proof (cases f)
  case None
  with assms(1) show ?thesis
    by (simp add: validate_items_def keys_def)
next
  case (Some w)
  with assms(1) obtain kvs items where w: "w = PyDict kvs"
    and e: "validate_each (\<lambda>p. collect (vk (fst p)) (vv (snd p))) kvs = Inr items"
    and d: "d = dict_of_items items"
    by (cases w) (auto simp: validate_items_def split: sum.splits)
  have "P (snd y)" if "y \<in> set items" for y
  proof -
    from validate_each_Inr [OF e] that obtain x where
      "collect (vk (fst x)) (vv (snd x)) = Inr (fst y, snd y)"
      by auto
    from collect_Inr [OF this] have "vv (snd x) = Inr (snd y)"
      by simp
    then show ?thesis
      by (rule assms(2))
  qed
  then have "\<forall>y \<in> set items. P (snd y)"
    by blast
  with dict_of_items_props [of items] d show ?thesis
    by (auto simp: list_all_iff)
qed

lemma validate_ChangeSet_dump:
  assumes "ChangeSet_valid c"
  shows "validate_ChangeSet pd_Timestamp strptime (model_dump c) = Inr c"
proof -
  from assms have can: "is_canonical c" and da: "distinct (keys (add c))"
    and dm: "distinct (keys (meta c))"
    and pa: "\<And>x. x \<in> set (add c) \<Longrightarrow> DayPropsLike_valid (snd x)"
    and pm: "\<And>x. x \<in> set (meta c) \<Longrightarrow> DateMeta_valid (snd x)"
    by (auto simp: ChangeSet_valid_def list_all_iff)
  have a: "validate_items (validate_TimestampLike pd_Timestamp) (validate_DayPropsLike strptime)
             (Some (PyDict (map (\<lambda>p. (PyTimestamp (fst p), DayPropsLike_dump (snd p))) (add c))))
           = Inr (add c)"
    using da pa by (intro validate_items_dump) (simp_all add: validate_DayPropsLike_dump)
  have m: "validate_items (validate_TimestampLike pd_Timestamp) validate_DateMeta
             (Some (PyDict (map (\<lambda>p. (PyTimestamp (fst p), DateMeta_dump (snd p))) (meta c))))
           = Inr (meta c)"
    using dm pm by (intro validate_items_dump) (simp_all add: validate_DateMeta_dump)
  have r: "\<lparr>add = add c, remove = remove c, meta = meta c\<rparr> = c"
    by (cases c) simp
  have "ChangeSet_canonicalize \<lparr>add = add c, remove = remove c, meta = meta c\<rparr> = c"
    using canonicalize_canonical [OF can] by (simp only: r)
  with a m show ?thesis
    by (simp add: validate_ChangeSet_def model_dump_def validate_list_dump collect_def
        extra_forbid_def)
qed

lemma validate_ChangeSet_valid:
  assumes "validate_ChangeSet pd_Timestamp strptime v = Inr c"
  shows "ChangeSet_valid c"
proof -
  from assms obtain kvs a r m where
    col: "collect
            (validate_items (validate_TimestampLike pd_Timestamp)
               (validate_DayPropsLike strptime) (map_of kvs (PyStr ''add'')))
            (collect
               (validate_list (validate_TimestampLike pd_Timestamp)
                  (map_of kvs (PyStr ''remove'')))
               (validate_items (validate_TimestampLike pd_Timestamp)
                  validate_DateMeta (map_of kvs (PyStr ''meta'')))) = Inr (a, r, m)"
    and c: "c = ChangeSet_canonicalize \<lparr>add = a, remove = r, meta = m\<rparr>"
    by (cases v) (auto simp: validate_ChangeSet_def split: sum.splits if_splits)
  from collect_Inr [OF col] have
    a: "validate_items (validate_TimestampLike pd_Timestamp)
               (validate_DayPropsLike strptime) (map_of kvs (PyStr ''add'')) = Inr a"
    and rm: "collect
               (validate_list (validate_TimestampLike pd_Timestamp)
                  (map_of kvs (PyStr ''remove'')))
               (validate_items (validate_TimestampLike pd_Timestamp)
                  validate_DateMeta (map_of kvs (PyStr ''meta''))) = Inr (r, m)"
    by simp_all
  from collect_Inr [OF rm] have
    m: "validate_items (validate_TimestampLike pd_Timestamp)
                  validate_DateMeta (map_of kvs (PyStr ''meta'')) = Inr m"
    by simp
  have va: "distinct (keys a) \<and> list_all DayPropsLike_valid (map snd a)"
    using a by (rule validate_items_valid) (rule validate_DayPropsLike_valid)
  have vm: "distinct (keys m) \<and> list_all DateMeta_valid (map snd m)"
    using m by (rule validate_items_valid) (rule validate_DateMeta_valid)
  have "is_canonical c"
    unfolding c by (rule is_canonical_canonicalize)
  moreover have "distinct (keys (add c))" "distinct (keys (meta c))"
    using va vm by (simp_all add: c ChangeSet_canonicalize_def distinct_keys_sort_key)
  moreover have "list_all DayPropsLike_valid (map snd (add c))"
    "list_all DateMeta_valid (map snd (meta c))"
    using va vm by (simp_all add: c ChangeSet_canonicalize_def list_all_iff)
  ultimately show ?thesis
    by (simp add: ChangeSet_valid_def)
qed

text \<open>
  Claim C4. For every valid changeset \<open>c\<close> (one that satisfies the class invariants,
  canonical order included), serialising \<open>c\<close> to the nested mapping and parsing that mapping
  again yields a changeset equal to \<open>c\<close> under the component-wise equality of \<open>add\<close>,
  \<open>remove\<close> and \<open>meta\<close>. Parsing followed by serialising is idempotent: what the parser
  returns is reproduced by serialising it and parsing again.
\<close>

theorem model_dump_roundtrip:
  "(ChangeSet_valid c \<longrightarrow>
      (\<exists>c'. validate_ChangeSet pd_Timestamp strptime (model_dump c) = Inr c' \<and> ChangeSet_eq c' c))
   \<and> (validate_ChangeSet pd_Timestamp strptime v = Inr c \<longrightarrow>
        validate_ChangeSet pd_Timestamp strptime (model_dump c) = Inr c)"
proof (intro conjI impI)
  assume "ChangeSet_valid c"
  then have "validate_ChangeSet pd_Timestamp strptime (model_dump c) = Inr c"
    by (rule validate_ChangeSet_dump)
  then show "\<exists>c'. validate_ChangeSet pd_Timestamp strptime (model_dump c) = Inr c' \<and> ChangeSet_eq c' c"
    by (simp add: ChangeSet_eq_def)
next
  assume "validate_ChangeSet pd_Timestamp strptime v = Inr c"
  then have "ChangeSet_valid c"
    by (rule validate_ChangeSet_valid)
  then show "validate_ChangeSet pd_Timestamp strptime (model_dump c) = Inr c"
    by (rule validate_ChangeSet_dump)
qed


theorem model_dump_roundtrip_witness:
  "validate_ChangeSet
      (\<lambda>v. if v = PyStr ''2020-01-01'' then Inr 1577836800000000000
           else if v = PyStr ''2020-01-02'' then Inr 1577923200000000000 else Inl ValidationError)
      (\<lambda>s f. None)
      (PyDict
        [(PyStr ''add'',
            PyDict [(PyStr ''2020-01-01'',
                       PyDict [(PyStr ''type'', PyStr ''holiday''), (PyStr ''name'', PyStr ''H'')])]),
         (PyStr ''remove'', PyList [PyStr ''2020-01-02'']),
         (PyStr ''meta'',
            PyDict [(PyStr ''2020-01-01'',
                       PyDict [(PyStr ''tags'', PyList [PyStr ''b'', PyStr ''a'', PyStr ''a''])])])])
    = Inr \<lparr>add = [(1577836800000000000, DayProps ''H'' HOLIDAY)],
            remove = [1577923200000000000],
            meta = [(1577836800000000000, \<lparr>tags = [PyStr ''a'', PyStr ''b''], comment = None\<rparr>)]\<rparr>
   \<and> validate_ChangeSet
      (\<lambda>v. if v = PyStr ''2020-01-01'' then Inr 1577836800000000000
           else if v = PyStr ''2020-01-02'' then Inr 1577923200000000000 else Inl ValidationError)
      (\<lambda>s f. None)
      (model_dump
         \<lparr>add = [(1577836800000000000, DayProps ''H'' HOLIDAY)],
          remove = [1577923200000000000],
          meta = [(1577836800000000000, \<lparr>tags = [PyStr ''a'', PyStr ''b''], comment = None\<rparr>)]\<rparr>)
    = Inr \<lparr>add = [(1577836800000000000, DayProps ''H'' HOLIDAY)],
            remove = [1577923200000000000],
            meta = [(1577836800000000000, \<lparr>tags = [PyStr ''a'', PyStr ''b''], comment = None\<rparr>)]\<rparr>
   \<and> ChangeSet_valid
         \<lparr>add = [(1577836800000000000, DayProps ''H'' HOLIDAY)],
          remove = [1577923200000000000],
          meta = [(1577836800000000000, \<lparr>tags = [PyStr ''a'', PyStr ''b''], comment = None\<rparr>)]\<rparr>"
proof -
  let ?pd = "\<lambda>v. if v = PyStr ''2020-01-01'' then Inr 1577836800000000000
           else if v = PyStr ''2020-01-02'' then Inr (1577923200000000000 :: Timestamp) else Inl ValidationError"
  let ?sp = "\<lambda>(s :: string) (f :: string). (None :: time option)"
  let ?raw = "PyDict
        [(PyStr ''add'',
            PyDict [(PyStr ''2020-01-01'',
                       PyDict [(PyStr ''type'', PyStr ''holiday''), (PyStr ''name'', PyStr ''H'')])]),
         (PyStr ''remove'', PyList [PyStr ''2020-01-02'']),
         (PyStr ''meta'',
            PyDict [(PyStr ''2020-01-01'',
                       PyDict [(PyStr ''tags'', PyList [PyStr ''b'', PyStr ''a'', PyStr ''a''])])])]"
  let ?c = "\<lparr>add = [(1577836800000000000, DayProps ''H'' HOLIDAY)],
            remove = [1577923200000000000],
            meta = [(1577836800000000000, \<lparr>tags = [PyStr ''a'', PyStr ''b''], comment = None\<rparr>)]\<rparr>"
  have h: "validate_ChangeSet ?pd ?sp ?raw = Inr ?c"
    by code_simp
  have v: "ChangeSet_valid ?c"
    by code_simp
  from model_dump_roundtrip [of ?c ?pd ?sp ?raw] h
  have "validate_ChangeSet ?pd ?sp (model_dump ?c) = Inr ?c"
    by blast
  with h v show ?thesis
    by blast
qed

end
